theory Spec2Isabelle
  imports Complex_Main "HOL-Library.AList" "HOL-Library.Sublist"
begin

section \<open>Data model (models/schemas.py)\<close>

text \<open>
  A Python \<open>str\<close> is modelled as the list of its code points, each an Isabelle \<open>char\<close>
  (code points 0 to 255), so \<open>length\<close> counts what Python's \<open>len\<close> counts.
  \<open>datetime.now()\<close> values are natural numbers (ticks).  Python \<open>int\<close> is \<open>int\<close>.
\<close>

datatype ErrorType =
  STT_ERROR | LLM_ERROR | TTS_ERROR | API_ERROR | NETWORK_ERROR
  | TIMEOUT_ERROR | GENERAL_ERROR | CONFIG_ERROR | INPUT_ERROR

datatype MessageRole = USER | ASSISTANT | SYSTEM

record ChatMessage =
  role :: MessageRole
  content :: string
  timestamp :: nat

record ChatSessionInfo =
  session_id :: string
  message_count :: int
  created_at :: nat
  last_activity :: nat
  messages :: "ChatMessage list"

datatype py_error =
  KeyError string | ValidationError string | AttributeError string | Exception string

text \<open>\<open>str(e)\<close> of a caught exception.\<close>

fun str_of_error :: "py_error \<Rightarrow> string" where
  "str_of_error (KeyError k) = k"
| "str_of_error (ValidationError msg) = msg"
| "str_of_error (AttributeError msg) = msg"
| "str_of_error (Exception msg) = msg"

subsection \<open>Strings\<close>

text \<open>
  \<open>str.lower()\<close> on code points below 256: the letters A to Z and the Latin-1 capitals
  (192 to 222 but the multiplication sign 215) move up by 32.  \<open>str.strip()\<close> removes
  the characters for which \<open>str.isspace()\<close> holds from both ends.  \<open>w in s\<close> on strings
  is \<open>sublist w s\<close>.
\<close>

definition lower_char :: "char \<Rightarrow> char" where
  "lower_char c =
     (let n = (of_char c :: nat)
      in if (65 \<le> n \<and> n \<le> 90) \<or> (192 \<le> n \<and> n \<le> 222 \<and> n \<noteq> 215)
         then char_of (n + 32) else c)"

definition lower :: "string \<Rightarrow> string" where
  "lower s = map lower_char s"

definition isspace :: "char \<Rightarrow> bool" where
  "isspace c = ((of_char c :: nat) \<in> {9, 10, 11, 12, 13, 28, 29, 30, 31, 32, 133, 160})"

definition strip :: "string \<Rightarrow> string" where
  "strip s = rev (dropWhile isspace (rev (dropWhile isspace s)))"

definition any_in :: "string list \<Rightarrow> string \<Rightarrow> bool" where
  "any_in words s = list_ex (\<lambda>word. sublist word s) words"

fun join :: "string \<Rightarrow> string list \<Rightarrow> string" where
  "join sep [] = []"
| "join sep [x] = x"
| "join sep (x # y # ys) = x @ sep @ join sep (y # ys)"

fun show_nat :: "nat \<Rightarrow> string" where
  "show_nat n =
     (if n < 10 then [char_of (48 + n)] else show_nat (n div 10) @ [char_of (48 + n mod 10)])"

definition show_int :: "int \<Rightarrow> string" where
  "show_int i = (if i < 0 then CHR ''-'' # show_nat (nat (- i)) else show_nat (nat i))"

subsection \<open>Request and response schemas\<close>

text \<open>
  The pydantic models as records; a constructor that validates returns the error the
  model raises.  Field constraints (\<open>min_length\<close>, \<open>max_length\<close>, \<open>ge\<close>, \<open>le\<close>) are
  checked before the model's own validator runs.  The \<open>timestamp\<close> field of the
  response models (a clock read at construction that nothing else depends on) is left
  out; field names carry the model's prefix where two models share a name.
\<close>

record TTSRequest =
  tts_text :: string
  voice_id :: "string option"
  speed :: "int option"
  pitch :: "int option"

definition TTSRequest_new ::
  "string \<Rightarrow> string option \<Rightarrow> int option \<Rightarrow> int option \<Rightarrow> py_error + TTSRequest" where
  "TTSRequest_new t v sp pt =
     (if length t < 1 \<or> length t > 5000
      then Inl (ValidationError ''text: string length out of range'')
      else if strip t = []
      then Inl (ValidationError ''Text cannot be empty or whitespace only'')
      else if (case sp of None \<Rightarrow> False | Some x \<Rightarrow> x < 50 \<or> x > 200)
      then Inl (ValidationError ''speed: out of range'')
      else if (case pt of None \<Rightarrow> False | Some x \<Rightarrow> x < 0 \<or> x > 100)
      then Inl (ValidationError ''pitch: out of range'')
      else Inr \<lparr>tts_text = strip t, voice_id = v, speed = sp, pitch = pt\<rparr>)"

text \<open>\<open>TTSRequest(text=...)\<close>: the other fields take their defaults.\<close>

definition TTSRequest_of_text :: "string \<Rightarrow> py_error + TTSRequest" where
  "TTSRequest_of_text t = TTSRequest_new t (Some ''en-US-AriaNeural'') (Some 95) (Some 45)"

record TTSResponse =
  tts_success :: bool
  audio_url :: "string option"
  tts_error :: "string option"
  tts_error_type :: "ErrorType option"
  emergency_fallback :: "string option"

record LLMRequest =
  llm_text :: string
  llm_session_id :: "string option"
  llm_model :: "string option"
  include_history :: "bool option"

definition LLMRequest_new :: "string \<Rightarrow> string option \<Rightarrow> py_error + LLMRequest" where
  "LLMRequest_new t sid =
     (if length t < 1 \<or> length t > 10000
      then Inl (ValidationError ''text: string length out of range'')
      else if strip t = []
      then Inl (ValidationError ''Text cannot be empty or whitespace only'')
      else Inr \<lparr>llm_text = strip t, llm_session_id = sid,
                llm_model = Some ''gemini-1.5-flash'', include_history = Some True\<rparr>)"

record LLMResponse =
  llm_success :: bool
  response :: "string option"
  query :: "string option"
  model :: "string option"
  resp_session_id :: "string option"
  llm_error :: "string option"
  llm_error_type :: "ErrorType option"
  fallback_response :: "string option"
  day :: int
  challenge :: string

text \<open>The model's defaults: \<open>LLMResponse()\<close> with no argument.\<close>

definition LLMResponse_default :: LLMResponse where
  "LLMResponse_default =
     \<lparr>llm_success = True, response = None, query = None, model = None,
      resp_session_id = None, llm_error = None, llm_error_type = None,
      fallback_response = None, day = 14, challenge = ''30 Days of Voice Agents''\<rparr>"

record TranscriptionResponse =
  stt_success :: bool
  transcription :: "string option"
  confidence :: "real option"
  language :: "string option"
  stt_error :: "string option"
  stt_error_type :: "ErrorType option"

definition TranscriptionResponse_new ::
  "bool \<Rightarrow> string option \<Rightarrow> real option \<Rightarrow> string option \<Rightarrow> string option
     \<Rightarrow> ErrorType option \<Rightarrow> py_error + TranscriptionResponse" where
  "TranscriptionResponse_new ok t c l err ty =
     (if (case c of None \<Rightarrow> False | Some x \<Rightarrow> x < 0 \<or> x > 1)
      then Inl (ValidationError ''confidence: out of range'')
      else Inr \<lparr>stt_success = ok, transcription = t, confidence = c, language = l,
                stt_error = err, stt_error_type = ty\<rparr>)"

record VoiceQueryResponse =
  vq_success :: bool
  vq_transcription :: "string option"
  vq_llm_response :: "string option"
  vq_audio_url :: "string option"
  vq_confidence :: "real option"
  vq_chat_history :: "ChatMessage list option"
  vq_session_id :: "string option"
  vq_message_count :: "int option"
  vq_error :: "string option"
  vq_error_type :: "ErrorType option"
  fallback_used :: "bool option"

text \<open>\<open>VoiceQueryResponse(success=False, error=..., error_type=..., session_id=...)\<close>.\<close>

definition VoiceQueryResponse_failure ::
  "string option \<Rightarrow> ErrorType option \<Rightarrow> string \<Rightarrow> VoiceQueryResponse" where
  "VoiceQueryResponse_failure err ty sid =
     \<lparr>vq_success = False, vq_transcription = None, vq_llm_response = None,
      vq_audio_url = None, vq_confidence = None, vq_chat_history = None,
      vq_session_id = Some sid, vq_message_count = None, vq_error = err,
      vq_error_type = ty, fallback_used = Some False\<rparr>"

record ErrorResponse =
  er_success :: bool
  er_error :: string
  er_error_type :: ErrorType

section \<open>The outside world\<close>

text \<open>
  The three remote capabilities and the file system are not part of the program: what
  they answer is a parameter.  A call either raises (with the text of the exception) or
  returns.  Every call that leaves the process is recorded, in order, in a log of
  \<open>ext_call\<close>s, so that "this stage was not invoked" is a statement about the log.
\<close>

text \<open>\<open>client.generate_content(context)\<close> and the \<open>text\<close> of its result.\<close>

datatype gen_outcome = GenRaises string | GenText string

text \<open>A parsed JSON value; \<open>JObj\<close> holds the dict in key order.\<close>

datatype json =
  JNull | JBool bool | JNum int | JStr string | JArr "json list" | JObj "(string \<times> json) list"

text \<open>Python truthiness of a parsed JSON value (\<open>not audio_url\<close>).\<close>

fun truthy :: "json \<Rightarrow> bool" where
  "truthy JNull = False"
| "truthy (JBool b) = b"
| "truthy (JNum n) = (n \<noteq> 0)"
| "truthy (JStr s) = (s \<noteq> [])"
| "truthy (JArr xs) = (xs \<noteq> [])"
| "truthy (JObj kvs) = (kvs \<noteq> [])"

text \<open>The \<open>requests.Response\<close>: its status code, its text, and what \<open>response.json()\<close>
  gives (\<open>None\<close> when the body does not parse, a \<open>ValueError\<close>).\<close>

record http_response =
  status_code :: int
  body_text :: string
  body_json :: "json option"

text \<open>\<open>requests.post\<close>: a timeout, another \<open>RequestException\<close>, any other exception,
  or a response.\<close>

datatype post_outcome =
  PostTimeout | PostRequestException string | PostException string | PostResponse http_response

record murf_payload =
  voiceId :: string
  style :: string
  payload_text :: string
  rate :: int
  payload_pitch :: int
  sampleRate :: int
  format :: string
  channelType :: string
  pronunciationDictionary :: "(string \<times> string) list"
  encodeAsBase64 :: bool
  variation :: int
  audioDuration :: int
  modelVersion :: string

text \<open>The uploaded file (werkzeug's \<open>FileStorage\<close>) and AssemblyAI's transcript.\<close>

record FileStorage =
  filename :: "string option"
  content_length :: int
  file_data :: "nat list"

record transcript =
  status_is_error :: bool
  transcript_error :: string
  transcript_text :: "string option"
  transcript_confidence :: "real option"

datatype transcribe_outcome = TranscribeRaises string | Transcript transcript

datatype ext_call =
  AssemblyAITranscribe string
  | GeminiGenerate string
  | MurfPost "string option" murf_payload

section \<open>The session store (utils/chat\_history.py)\<close>

text \<open>
  The two sources of nondeterminism the store reads, \<open>uuid.uuid4()\<close> and
  \<open>datetime.now()\<close>, are oracles of the environment: the n-th call returns
  \<open>uuid4 e n\<close>, respectively \<open>now e n\<close>.  The manager carries, next to the dict
  \<open>self.sessions\<close>, how many values of each oracle have been consumed.  The
  environment also answers \<open>requests.post\<close> and the writing of a temporary file
  (the path, or the text of the exception).

  \<open>self.sessions\<close> is a Python dict: an association list in insertion order, where
  \<open>d[k] = v\<close> is \<open>AList.update\<close> (replace in place, or append) and \<open>del d[k]\<close> is
  \<open>AList.delete\<close>.
\<close>

record env =
  uuid4 :: "nat \<Rightarrow> string"
  now :: "nat \<Rightarrow> nat"
  requests_post ::
    "string option \<Rightarrow> murf_payload \<Rightarrow> (string \<times> string option) list \<Rightarrow> int \<Rightarrow> post_outcome"
  save_temp_file :: "FileStorage \<Rightarrow> string + string"

record ChatHistoryManager =
  sessions :: "(string \<times> ChatSessionInfo) list"
  uuid_draws :: nat
  clock_reads :: nat

definition init_manager :: ChatHistoryManager where
  "init_manager = \<lparr>sessions = [], uuid_draws = 0, clock_reads = 0\<rparr>"

definition create_session :: "env \<Rightarrow> ChatHistoryManager \<Rightarrow> string \<times> ChatHistoryManager" where
  "create_session e m =
     (let sid = uuid4 e (uuid_draws m);
          t = now e (clock_reads m);
          session_info = \<lparr>session_id = sid, message_count = 0, created_at = t,
                          last_activity = t, messages = []\<rparr>
      in (sid, m\<lparr>sessions := AList.update sid session_info (sessions m),
                  uuid_draws := Suc (uuid_draws m),
                  clock_reads := Suc (clock_reads m)\<rparr>))"

definition get_session :: "ChatHistoryManager \<Rightarrow> string \<Rightarrow> ChatSessionInfo option" where
  "get_session m sid = map_of (sessions m) sid"

definition get_chat_history :: "ChatHistoryManager \<Rightarrow> string \<Rightarrow> ChatMessage list" where
  "get_chat_history m sid =
     (case map_of (sessions m) sid of Some session \<Rightarrow> messages session | None \<Rightarrow> [])"

definition add_message ::
  "env \<Rightarrow> ChatHistoryManager \<Rightarrow> string \<Rightarrow> MessageRole \<Rightarrow> string
     \<Rightarrow> py_error + (bool \<times> ChatHistoryManager)" where
  "add_message e m sid r c =
     (let (sid', m1) = (if sid \<notin> set (map fst (sessions m)) then create_session e m
                        else (sid, m))
      in case map_of (sessions m1) sid' of
           None \<Rightarrow> Inl (KeyError sid')
         | Some session \<Rightarrow>
             (let message = \<lparr>role = r, content = c, timestamp = now e (clock_reads m1)\<rparr>;
                  msgs = messages session @ [message];
                  session' = session\<lparr>messages := msgs,
                                      message_count := int (length msgs),
                                      last_activity := now e (Suc (clock_reads m1))\<rparr>
              in Inr (True, m1\<lparr>sessions := AList.update sid' session' (sessions m1),
                               clock_reads := Suc (Suc (clock_reads m1))\<rparr>)))"

definition add_user_message ::
  "env \<Rightarrow> ChatHistoryManager \<Rightarrow> string \<Rightarrow> string \<Rightarrow> py_error + (bool \<times> ChatHistoryManager)" where
  "add_user_message e m sid c = add_message e m sid USER c"

definition add_assistant_message ::
  "env \<Rightarrow> ChatHistoryManager \<Rightarrow> string \<Rightarrow> string \<Rightarrow> py_error + (bool \<times> ChatHistoryManager)" where
  "add_assistant_message e m sid c = add_message e m sid ASSISTANT c"

definition clear_session :: "ChatHistoryManager \<Rightarrow> string \<Rightarrow> bool \<times> ChatHistoryManager" where
  "clear_session m sid =
     (if sid \<in> set (map fst (sessions m))
      then (True, m\<lparr>sessions := AList.delete sid (sessions m)\<rparr>)
      else (False, m))"

text \<open>Python's \<open>xs[start:]\<close>: a negative start counts from the end, and both ends clamp.\<close>

definition slice_from :: "int \<Rightarrow> 'a list \<Rightarrow> 'a list" where
  "slice_from start xs =
     (let n = int (length xs);
          s = (if start < 0 then max (start + n) 0 else min start n)
      in drop (nat s) xs)"

definition get_recent_messages :: "ChatHistoryManager \<Rightarrow> string \<Rightarrow> int \<Rightarrow> ChatMessage list" where
  "get_recent_messages m sid limit =
     (let msgs = get_chat_history m sid
      in if msgs \<noteq> [] then slice_from (- limit) msgs else [])"

record session_stats =
  total_sessions :: int
  total_messages :: int
  active_sessions :: "string list"

definition get_session_stats :: "ChatHistoryManager \<Rightarrow> session_stats" where
  "get_session_stats m =
     \<lparr>total_sessions = int (length (sessions m)),
      total_messages = sum_list (map (\<lambda>(sid, session). message_count session) (sessions m)),
      active_sessions = map fst (filter (\<lambda>(sid, session). message_count session > 0) (sessions m))\<rparr>"

text \<open>A caller's use of the store: any sequence of its three mutating operations.\<close>

datatype store_op =
  CreateSession
  | AddMessage string MessageRole string
  | ClearSession string

fun exec_op :: "env \<Rightarrow> store_op \<Rightarrow> ChatHistoryManager \<Rightarrow> py_error + ChatHistoryManager" where
  "exec_op e CreateSession m = Inr (snd (create_session e m))"
| "exec_op e (AddMessage sid r c) m =
     (case add_message e m sid r c of Inl err \<Rightarrow> Inl err | Inr (ok, m') \<Rightarrow> Inr m')"
| "exec_op e (ClearSession sid) m = Inr (snd (clear_session m sid))"

fun run_ops :: "env \<Rightarrow> store_op list \<Rightarrow> ChatHistoryManager \<Rightarrow> py_error + ChatHistoryManager" where
  "run_ops e [] m = Inr m"
| "run_ops e (x # xs) m =
     (case exec_op e x m of Inl err \<Rightarrow> Inl err | Inr m' \<Rightarrow> run_ops e xs m')"

section \<open>The language model service (services/llm.py)\<close>

record LLMService =
  llm_api_key :: "string option"
  model_name :: string
  llm_timeout :: int
  client :: "(string \<Rightarrow> gen_outcome) option"

text \<open>\<open>_setup_client\<close>: \<open>genai\<close> stands for \<open>genai.configure\<close> followed by
  \<open>genai.GenerativeModel\<close>, which raise or give the client.\<close>

definition llm_setup_client ::
  "string option \<Rightarrow> string \<Rightarrow> (string \<Rightarrow> string \<Rightarrow> string + (string \<Rightarrow> gen_outcome))
     \<Rightarrow> (string \<Rightarrow> gen_outcome) option" where
  "llm_setup_client api_key name genai =
     (case api_key of
        None \<Rightarrow> None
      | Some k \<Rightarrow>
          if k = [] \<or> k = ''your_gemini_api_key_here'' then None
          else (case genai k name of Inl err \<Rightarrow> None | Inr c \<Rightarrow> Some c))"

definition LLMService_new ::
  "string option \<Rightarrow> int \<Rightarrow> (string \<Rightarrow> string \<Rightarrow> string + (string \<Rightarrow> gen_outcome)) \<Rightarrow> LLMService" where
  "LLMService_new api_key timeout genai =
     \<lparr>llm_api_key = api_key, model_name = ''gemini-1.5-flash'', llm_timeout = timeout,
      client = llm_setup_client api_key ''gemini-1.5-flash'' genai\<rparr>"

definition llm_is_available :: "LLMService \<Rightarrow> bool" where
  "llm_is_available svc = (client svc \<noteq> None \<and> llm_api_key svc \<noteq> None)"

definition generate_contextual_fallback :: "string \<Rightarrow> string" where
  "generate_contextual_fallback user_text =
     (if user_text = [] then ''I didn't catch that. Could you please repeat your message?''
      else
        let user_lower = lower user_text
        in if any_in [''hello'', ''hi'', ''hey'', ''good morning'', ''good afternoon''] user_lower
           then ''Hello! I'm having some technical difficulties with my AI brain, but I'm here to help as best I can.''
           else if any_in [''how are you'', ''how do you do''] user_lower
           then ''I'm experiencing some technical issues right now, but thank you for asking! How can I help you?''
           else if any_in [''thank'', ''thanks''] user_lower
           then ''You're very welcome! Though I should mention I'm having some connectivity issues at the moment.''
           else if any_in [''bye'', ''goodbye'', ''see you'', ''farewell''] user_lower
           then ''Goodbye! Sorry for any technical difficulties during our conversation. Hope to chat again soon!''
           else if any_in [''help'', ''support'', ''assist''] user_lower
           then ''I'd love to help you! I'm currently experiencing some technical difficulties, but I'll do my best to assist.''
           else if any_in [''what'', ''how'', ''why'', ''when'', ''where'', ''who''] user_lower
           then ''That's a great question! Unfortunately, I'm having trouble accessing my full knowledge base right now, but please try asking again in a moment.''
           else
             let preview = (if length user_text > 50 then take 50 user_text @ ''...''
                            else user_text)
             in ''I heard you mention something about '' @ [CHR 0x27] @ preview @ [CHR 0x27] @
                ''. I'm experiencing some technical difficulties, but I'm trying to help as best I can.'')"

definition role_label :: "MessageRole \<Rightarrow> string" where
  "role_label r = (if r = USER then ''User'' else ''Assistant'')"

definition prepare_context :: "LLMRequest \<Rightarrow> ChatMessage list option \<Rightarrow> string" where
  "prepare_context request chat_history =
     (let system_prompt =
            ''You are a helpful AI voice assistant. Provide clear, concise, and helpful responses. '' @
            ''Keep your responses conversational and engaging, suitable for voice interaction.'';
          context_parts = [''System: '' @ system_prompt];
          context_parts =
            (case chat_history of
               None \<Rightarrow> context_parts
             | Some h \<Rightarrow>
                 if include_history request = Some True \<and> h \<noteq> []
                 then context_parts @ [CHR 0x0A # ''Conversation History:''] @
                      map (\<lambda>message. role_label (role message) @ '': '' @ content message)
                        (slice_from (- 10) h)
                 else context_parts);
          context_parts = context_parts @ [CHR 0x0A # ''User: '' @ llm_text request];
          context_parts = context_parts @ [''Assistant:'']
      in join [CHR 0x0A] context_parts)"

text \<open>\<open>_generate_llm_response\<close> logs and re-raises whatever the client raises.\<close>

definition generate_llm_response ::
  "(string \<Rightarrow> gen_outcome) option \<Rightarrow> string \<Rightarrow> py_error + string" where
  "generate_llm_response c context =
     (case c of
        None \<Rightarrow> Inl (AttributeError ''NoneType object has no attribute generate_content'')
      | Some generate_content \<Rightarrow>
          (case generate_content context of
             GenRaises msg \<Rightarrow> Inl (Exception msg)
           | GenText t \<Rightarrow>
               if t = [] then Inl (Exception ''Empty response from LLM'') else Inr (strip t)))"

text \<open>The second component is the log of the remote calls made.\<close>

definition generate_response ::
  "LLMService \<Rightarrow> LLMRequest \<Rightarrow> ChatMessage list option \<Rightarrow> LLMResponse \<times> ext_call list" where
  "generate_response svc request chat_history =
     (if \<not> llm_is_available svc
      then (let fallback = generate_contextual_fallback (llm_text request)
            in (LLMResponse_default
                  \<lparr>llm_success := False,
                   llm_error := Some ''LLM service not available - API key not configured'',
                   llm_error_type := Some CONFIG_ERROR,
                   fallback_response := Some fallback,
                   query := Some (llm_text request),
                   resp_session_id := llm_session_id request\<rparr>, []))
      else
        (let conversation_context = prepare_context request chat_history;
             made = (case client svc of None \<Rightarrow> []
                     | Some c \<Rightarrow> [GeminiGenerate conversation_context])
         in case generate_llm_response (client svc) conversation_context of
              Inr r \<Rightarrow>
                (LLMResponse_default
                   \<lparr>llm_success := True, response := Some r, query := Some (llm_text request),
                    model := Some (model_name svc), resp_session_id := llm_session_id request\<rparr>,
                 made)
            | Inl err \<Rightarrow>
                (let fallback = generate_contextual_fallback (llm_text request)
                 in (LLMResponse_default
                       \<lparr>llm_success := False,
                        llm_error := Some (''LLM generation failed: '' @ str_of_error err),
                        llm_error_type := Some LLM_ERROR,
                        fallback_response := Some fallback,
                        query := Some (llm_text request),
                        resp_session_id := llm_session_id request\<rparr>,
                     made))))"

section \<open>The speech synthesis service (services/tts.py)\<close>

record TTSService =
  tts_api_key :: "string option"
  api_url :: "string option"
  tts_timeout :: int
  default_voice :: string
  default_speed :: int
  default_pitch :: int

definition tts_is_available :: "TTSService \<Rightarrow> bool" where
  "tts_is_available svc =
     (tts_api_key svc \<noteq> None \<and> tts_api_key svc \<noteq> Some ''your_murf_api_key_here'' \<and>
      api_url svc \<noteq> None \<and> api_url svc \<noteq> Some ''your_murf_api_url_here'')"

text \<open>\<open>text.encode('utf-8')\<close> for code points below 256: one byte below 128, two from
  there on.  \<open>base64.b64encode\<close> is the standard alphabet with \<open>=\<close> padding (RFC 4648).\<close>

definition utf8_encode :: "string \<Rightarrow> nat list" where
  "utf8_encode s =
     concat (map (\<lambda>c. let n = (of_char c :: nat)
                        in if n < 128 then [n] else [192 + n div 64, 128 + n mod 64]) s)"

definition b64_alphabet :: string where
  "b64_alphabet = ''ABCDEFGHIJKLMNOPQRSTUVWXYZabcdefghijklmnopqrstuvwxyz0123456789+/''"

definition b64_char :: "nat \<Rightarrow> char" where
  "b64_char v = b64_alphabet ! (v mod 64)"

fun b64encode :: "nat list \<Rightarrow> string" where
  "b64encode [] = []"
| "b64encode [a] =
     [b64_char (a div 4), b64_char ((a mod 4) * 16), CHR ''='', CHR ''='']"
| "b64encode [a, b] =
     [b64_char (a div 4), b64_char ((a mod 4) * 16 + b div 16),
      b64_char ((b mod 16) * 4), CHR ''='']"
| "b64encode (a # b # c # rest) =
     [b64_char (a div 4), b64_char ((a mod 4) * 16 + b div 16),
      b64_char ((b mod 16) * 4 + c div 64), b64_char (c mod 64)] @ b64encode rest"

text \<open>\<open>_generate_emergency_fallback\<close>: encoding a string of this model cannot raise, so
  the \<open>except\<close> branch (which returns \<open>None\<close>) is never taken.\<close>

definition generate_emergency_fallback :: "string \<Rightarrow> string option" where
  "generate_emergency_fallback t =
     (let text_bytes = utf8_encode t;
          base64_text = b64encode text_bytes
      in Some (''data:text/plain;base64,'' @ base64_text))"

text \<open>\<open>a or b\<close> on an optional string and on an optional int.\<close>

definition or_str :: "string option \<Rightarrow> string \<Rightarrow> string" where
  "or_str a b = (case a of None \<Rightarrow> b | Some x \<Rightarrow> if x = [] then b else x)"

definition or_int :: "int option \<Rightarrow> int \<Rightarrow> int" where
  "or_int a b = (case a of None \<Rightarrow> b | Some x \<Rightarrow> if x = 0 then b else x)"

definition prepare_murf_payload :: "TTSService \<Rightarrow> TTSRequest \<Rightarrow> murf_payload" where
  "prepare_murf_payload svc request =
     \<lparr>voiceId = or_str (voice_id request) (default_voice svc),
      style = ''Conversational'',
      payload_text = tts_text request,
      rate = or_int (speed request) (default_speed svc),
      payload_pitch = or_int (pitch request) (default_pitch svc),
      sampleRate = 24000,
      format = ''MP3'',
      channelType = ''MONO'',
      pronunciationDictionary = [],
      encodeAsBase64 = False,
      variation = 1,
      audioDuration = 0,
      modelVersion = ''GEN2''\<rparr>"

definition prepare_murf_headers :: "TTSService \<Rightarrow> (string \<times> string option) list" where
  "prepare_murf_headers svc =
     [(''api-key'', tts_api_key svc), (''Content-Type'', Some ''application/json'')]"

definition tts_failure :: "string \<Rightarrow> ErrorType \<Rightarrow> string option \<Rightarrow> TTSResponse" where
  "tts_failure err ty fb =
     \<lparr>tts_success = False, audio_url = None, tts_error = Some err,
      tts_error_type = Some ty, emergency_fallback = fb\<rparr>"

text \<open>
  \<open>_process_murf_response\<close>.  \<open>data.get\<close> on a JSON value that is not an object raises
  \<open>AttributeError\<close>, which leaves the function.  An \<open>audioFile\<close> that is true but not a
  string fails the validation of \<open>TTSResponse.audio_url\<close>; that error is a
  \<open>ValueError\<close> and is caught here.
\<close>

definition process_murf_response :: "http_response \<Rightarrow> string \<Rightarrow> py_error + TTSResponse" where
  "process_murf_response r original_text =
     (if status_code r \<noteq> 200
      then Inr (tts_failure (''TTS API returned status '' @ show_int (status_code r)) API_ERROR
                  (generate_emergency_fallback original_text))
      else
        case body_json r of
          None \<Rightarrow>
            Inr (tts_failure ''Invalid response format from TTS service'' API_ERROR
                   (generate_emergency_fallback original_text))
        | Some (JObj kvs) \<Rightarrow>
            (case map_of kvs ''audioFile'' of
               None \<Rightarrow>
                 Inr (tts_failure ''No audio URL returned from TTS service'' TTS_ERROR
                        (generate_emergency_fallback original_text))
             | Some v \<Rightarrow>
                 if \<not> truthy v
                 then Inr (tts_failure ''No audio URL returned from TTS service'' TTS_ERROR
                             (generate_emergency_fallback original_text))
                 else
                   (case v of
                      JStr u \<Rightarrow>
                        Inr \<lparr>tts_success = True, audio_url = Some u, tts_error = None,
                             tts_error_type = None, emergency_fallback = None\<rparr>
                    | _ \<Rightarrow>
                        Inr (tts_failure ''Invalid response format from TTS service'' API_ERROR
                               (generate_emergency_fallback original_text))))
        | Some _ \<Rightarrow> Inl (AttributeError ''object has no attribute get''))"

definition synthesize_speech ::
  "env \<Rightarrow> TTSService \<Rightarrow> TTSRequest \<Rightarrow> TTSResponse \<times> ext_call list" where
  "synthesize_speech e svc request =
     (if \<not> tts_is_available svc
      then (tts_failure ''TTS service not available - API keys not configured'' CONFIG_ERROR
              (generate_emergency_fallback (tts_text request)), [])
      else
        (let payload = prepare_murf_payload svc request;
             headers = prepare_murf_headers svc
         in (case requests_post e (api_url svc) payload headers (tts_timeout svc) of
               PostResponse r \<Rightarrow>
                 (case process_murf_response r (tts_text request) of
                    Inr resp \<Rightarrow> resp
                  | Inl err \<Rightarrow>
                      tts_failure (''TTS synthesis failed: '' @ str_of_error err) TTS_ERROR
                        (generate_emergency_fallback (tts_text request)))
             | PostTimeout \<Rightarrow>
                 tts_failure ''TTS request timed out'' TIMEOUT_ERROR
                   (generate_emergency_fallback (tts_text request))
             | PostRequestException msg \<Rightarrow>
                 tts_failure (''TTS API request failed: '' @ msg) NETWORK_ERROR
                   (generate_emergency_fallback (tts_text request))
             | PostException msg \<Rightarrow>
                 tts_failure (''TTS synthesis failed: '' @ msg) TTS_ERROR
                   (generate_emergency_fallback (tts_text request)),
             [MurfPost (api_url svc) payload])))"

section \<open>The speech recognition service (services/stt.py)\<close>

text \<open>The client, when configured, answers \<open>Transcriber().transcribe(path)\<close>.  The
  removal of the temporary file in the \<open>finally\<close> block changes nothing this model
  observes and is left out.\<close>

record STTService =
  stt_api_key :: "string option"
  stt_timeout :: int
  stt_client :: "(string \<Rightarrow> transcribe_outcome) option"

definition stt_is_available :: "STTService \<Rightarrow> bool" where
  "stt_is_available svc = (stt_client svc \<noteq> None \<and> stt_api_key svc \<noteq> None)"

definition stt_failure :: "string \<Rightarrow> ErrorType \<Rightarrow> TranscriptionResponse" where
  "stt_failure err ty =
     \<lparr>stt_success = False, transcription = None, confidence = None, language = None,
      stt_error = Some err, stt_error_type = Some ty\<rparr>"

definition perform_transcription ::
  "STTService \<Rightarrow> string \<Rightarrow> TranscriptionResponse \<times> ext_call list" where
  "perform_transcription svc audio_file_path =
     (case stt_client svc of
        None \<Rightarrow>
          (stt_failure (''Transcription processing failed: '' @
                        ''NoneType object has no attribute Transcriber'') STT_ERROR, [])
      | Some transcribe \<Rightarrow>
          ((case transcribe audio_file_path of
              TranscribeRaises msg \<Rightarrow>
                stt_failure (''Transcription processing failed: '' @ msg) STT_ERROR
            | Transcript t \<Rightarrow>
                if status_is_error t
                then stt_failure (''Transcription service error: '' @ transcript_error t) STT_ERROR
                else
                  (case transcript_text t of
                     None \<Rightarrow> stt_failure ''No speech detected in audio'' STT_ERROR
                   | Some transcription_text \<Rightarrow>
                       if transcription_text = [] \<or> strip transcription_text = []
                       then stt_failure ''No speech detected in audio'' STT_ERROR
                       else
                         (case TranscriptionResponse_new True (Some (strip transcription_text))
                                 (transcript_confidence t) (Some ''en'') None None of
                            Inr r \<Rightarrow> r
                          | Inl err \<Rightarrow>
                              stt_failure (''Transcription processing failed: '' @ str_of_error err)
                                STT_ERROR))),
           [AssemblyAITranscribe audio_file_path]))"

definition transcribe_audio ::
  "env \<Rightarrow> STTService \<Rightarrow> FileStorage \<Rightarrow> TranscriptionResponse \<times> ext_call list" where
  "transcribe_audio e svc audio_file =
     (if \<not> stt_is_available svc
      then (stt_failure ''STT service not available - API key not configured'' CONFIG_ERROR, [])
      else
        case save_temp_file e audio_file of
          Inl msg \<Rightarrow> (stt_failure (''Transcription failed: '' @ msg) STT_ERROR, [])
        | Inr temp_file_path \<Rightarrow> perform_transcription svc temp_file_path)"

section \<open>Validation (utils/error\_handling.py)\<close>

definition create_error_response :: "string \<Rightarrow> ErrorType \<Rightarrow> ErrorResponse" where
  "create_error_response error_message ty =
     \<lparr>er_success = False, er_error = error_message, er_error_type = ty\<rparr>"

definition validate_text_input :: "string \<Rightarrow> int \<Rightarrow> string option" where
  "validate_text_input t max_length =
     (if t = [] then Some ''Text cannot be empty''
      else
        let t = strip t
        in if t = [] then Some ''Text cannot be empty or whitespace only''
           else if int (length t) > max_length
           then Some (''Text too long (max '' @ show_int max_length @ '' characters)'')
           else None)"

text \<open>\<open>filename.rsplit('.', 1)[-1]\<close>: what follows the last dot, or the whole name.\<close>

definition rsplit_last :: "string \<Rightarrow> string" where
  "rsplit_last s = rev (takeWhile (\<lambda>c. c \<noteq> CHR ''.'') (rev s))"

text \<open>A \<open>FileStorage\<close> is true when its filename is, so an empty filename already
  leaves at \<open>if not file\<close> and the check \<open>file.filename == ''\<close> after it is never
  reached.  The message for an unsupported format joins a Python set, whose order is
  not fixed; the model lists it sorted.\<close>

definition validate_audio_file :: "FileStorage \<Rightarrow> string option" where
  "validate_audio_file file =
     (case filename file of
        None \<Rightarrow> Some ''No audio file provided''
      | Some name \<Rightarrow>
          if name = [] then Some ''No audio file provided''
          else if content_length file \<noteq> 0 \<and> content_length file > 16 * 1024 * 1024
          then Some ''File too large (max 16MB)''
          else
            let allowed_extensions = [''.m4a'', ''.mp3'', ''.ogg'', ''.wav'', ''.webm''];
                file_ext = CHR ''.'' # lower (rsplit_last name)
            in if file_ext \<notin> set allowed_extensions
               then Some (''Unsupported file format. Allowed: '' @ join '', '' allowed_extensions)
               else None)"

section \<open>The application (app.py)\<close>

text \<open>
  The process-wide state: the global \<open>chat_manager\<close> and the log of remote calls.
  The three services are fixed at start-up.  A Flask request is what the handlers
  read of it: whether it is JSON and what \<open>get_json()\<close> gives, the form fields and the
  uploaded files.
\<close>

record app_state =
  chat_manager :: ChatHistoryManager
  calls :: "ext_call list"

record services =
  stt_service :: STTService
  llm_service :: LLMService
  tts_service :: TTSService

record flask_request =
  is_json :: bool
  get_json :: "json option"
  form :: "(string \<times> string) list"
  files :: "(string \<times> FileStorage) list"

datatype app_response =
  JsonLLM LLMResponse int
  | JsonVoice VoiceQueryResponse int
  | JsonError ErrorResponse int

definition init_state :: app_state where
  "init_state = \<lparr>chat_manager = init_manager, calls = []\<rparr>"

text \<open>
  \<open>_process_voice_pipeline\<close>.  The body is one \<open>try\<close>: whatever is raised inside (a
  request model that does not validate, a missing key) ends the pipeline with a
  \<open>GENERAL_ERROR\<close> response, and the state keeps what was done before.
\<close>

definition pipeline_exception :: "py_error \<Rightarrow> string \<Rightarrow> VoiceQueryResponse" where
  "pipeline_exception err sid =
     VoiceQueryResponse_failure (Some (''Voice processing failed: '' @ str_of_error err))
       (Some GENERAL_ERROR) sid"

definition process_voice_pipeline ::
  "env \<Rightarrow> services \<Rightarrow> FileStorage \<Rightarrow> string \<Rightarrow> app_state \<Rightarrow> VoiceQueryResponse \<times> app_state" where
  "process_voice_pipeline e svc audio_file sid st =
     (let (stt_response, c1) = transcribe_audio e (stt_service svc) audio_file;
          st1 = st\<lparr>calls := calls st @ c1\<rparr>
      in if \<not> stt_success stt_response
         then (VoiceQueryResponse_failure (stt_error stt_response)
                 (stt_error_type stt_response) sid, st1)
         else
          (case transcription stt_response of
             None \<Rightarrow>
               (pipeline_exception (ValidationError ''content: none is not an allowed value'') sid,
                st1)
           | Some transcription_text \<Rightarrow>
          (case add_user_message e (chat_manager st1) sid transcription_text of
             Inl err \<Rightarrow> (pipeline_exception err sid, st1)
           | Inr (ok2, m2) \<Rightarrow>
          (let st2 = st1\<lparr>chat_manager := m2\<rparr>;
               chat_history = get_recent_messages m2 sid 10
           in
          (case LLMRequest_new transcription_text (Some sid) of
             Inl err \<Rightarrow> (pipeline_exception err sid, st2)
           | Inr llm_request \<Rightarrow>
          (let (llm_response, c3) =
                 generate_response (llm_service svc) llm_request (Some chat_history);
               st3 = st2\<lparr>calls := calls st2 @ c3\<rparr>;
               response_text =
                 (if \<not> llm_success llm_response
                  then Some (or_str (fallback_response llm_response)
                               ''I'm having trouble processing your request.'')
                  else response llm_response)
           in
          (case response_text of
             None \<Rightarrow>
               (pipeline_exception (ValidationError ''content: none is not an allowed value'') sid,
                st3)
           | Some response_text \<Rightarrow>
          (case add_assistant_message e m2 sid response_text of
             Inl err \<Rightarrow> (pipeline_exception err sid, st3)
           | Inr (ok4, m4) \<Rightarrow>
          (let st4 = st3\<lparr>chat_manager := m4\<rparr>
           in
          (case TTSRequest_of_text response_text of
             Inl err \<Rightarrow> (pipeline_exception err sid, st4)
           | Inr tts_request \<Rightarrow>
          (let (tts_response, c5) = synthesize_speech e (tts_service svc) tts_request;
               st5 = st4\<lparr>calls := calls st4 @ c5\<rparr>;
               updated_history = get_chat_history m4 sid
           in (\<lparr>vq_success = True,
                vq_transcription = Some transcription_text,
                vq_llm_response = Some response_text,
                vq_audio_url = (if tts_success tts_response then audio_url tts_response else None),
                vq_confidence = confidence stt_response,
                vq_chat_history = Some updated_history,
                vq_session_id = Some sid,
                vq_message_count = Some (int (length updated_history)),
                vq_error = None,
                vq_error_type = None,
                fallback_used = Some (\<not> llm_success llm_response \<or> \<not> tts_success tts_response)\<rparr>,
               st5))))))))))))"

text \<open>\<open>_handle_voice_query\<close>: the session id of the form, or a fresh \<open>uuid4\<close>.\<close>

definition handle_voice_query ::
  "env \<Rightarrow> services \<Rightarrow> flask_request \<Rightarrow> app_state \<Rightarrow> app_response \<times> app_state" where
  "handle_voice_query e svc request st =
     (case map_of (files request) ''audio'' of
        None \<Rightarrow> (JsonError (create_error_response ''No audio file provided'' INPUT_ERROR) 400, st)
      | Some audio_file \<Rightarrow>
          (case validate_audio_file audio_file of
             Some validation_error \<Rightarrow>
               (JsonError (create_error_response validation_error INPUT_ERROR) 400, st)
           | None \<Rightarrow>
               let m = chat_manager st;
                   (sid, st0) =
                     (case map_of (form request) ''session_id'' of
                        Some s \<Rightarrow>
                          if s \<noteq> [] then (s, st)
                          else (uuid4 e (uuid_draws m),
                                st\<lparr>chat_manager := m\<lparr>uuid_draws := Suc (uuid_draws m)\<rparr>\<rparr>)
                      | None \<Rightarrow>
                          (uuid4 e (uuid_draws m),
                           st\<lparr>chat_manager := m\<lparr>uuid_draws := Suc (uuid_draws m)\<rparr>\<rparr>));
                   (resp, st') = process_voice_pipeline e svc audio_file sid st0
               in (JsonVoice resp 200, st')))"

text \<open>\<open>_handle_text_query\<close>.  The text is read from the JSON body or from the form;
  \<open>data.get\<close> on a body that is not an object and \<open>text.strip()\<close> on a value that is
  not a string raise \<open>AttributeError\<close>.\<close>

definition request_text :: "flask_request \<Rightarrow> py_error + json option" where
  "request_text request =
     (if is_json request
      then (case get_json request of
              None \<Rightarrow> Inr None
            | Some data \<Rightarrow>
                if \<not> truthy data then Inr None
                else (case data of
                        JObj kvs \<Rightarrow> Inr (map_of kvs ''text'')
                      | _ \<Rightarrow> Inl (AttributeError ''object has no attribute get'')))
      else Inr (map_option JStr (map_of (form request) ''text'')))"

definition handle_text_query ::
  "services \<Rightarrow> flask_request \<Rightarrow> py_error + (app_response \<times> ext_call list)" where
  "handle_text_query svc request =
     (case request_text request of
        Inl err \<Rightarrow> Inl err
      | Inr None \<Rightarrow>
          Inr (JsonError (create_error_response ''Missing 'text' field in request'' INPUT_ERROR) 400, [])
      | Inr (Some v) \<Rightarrow>
          if \<not> truthy v
          then Inr (JsonError (create_error_response ''Missing 'text' field in request'' INPUT_ERROR) 400, [])
          else
            (case v of
               JStr t \<Rightarrow>
                 (case validate_text_input t 10000 of
                    Some validation_error \<Rightarrow>
                      Inr (JsonError (create_error_response validation_error INPUT_ERROR) 400, [])
                  | None \<Rightarrow>
                      (case LLMRequest_new t None of
                         Inl err \<Rightarrow> Inl err
                       | Inr llm_request \<Rightarrow>
                           let (resp, made) =
                                 generate_response (llm_service svc) llm_request None
                           in Inr (JsonLLM resp 200, made)))
             | _ \<Rightarrow> Inl (AttributeError ''object has no attribute strip'')))"

text \<open>The route \<open>/llm/query\<close>: a request with an \<open>audio\<close> file is a voice query, any
  other a text query; an exception of either handler becomes a 500 response.\<close>

definition llm_query ::
  "env \<Rightarrow> services \<Rightarrow> flask_request \<Rightarrow> app_state \<Rightarrow> app_response \<times> app_state" where
  "llm_query e svc request st =
     (if ''audio'' \<in> set (map fst (files request))
      then handle_voice_query e svc request st
      else
        case handle_text_query svc request of
          Inr (resp, made) \<Rightarrow> (resp, st\<lparr>calls := calls st @ made\<rparr>)
        | Inl err \<Rightarrow>
            (JsonError (create_error_response ''LLM processing failed'' GENERAL_ERROR) 500, st))"

section \<open>The fallback classification, as the specification words it\<close>

text \<open>
  An ordered table of (predicate, reply) pairs, evaluated top to bottom on the
  lower-cased input; the first match wins, and the default comes last.  The families
  are, in order: greeting, well-being inquiry, gratitude, farewell, help request,
  question word.
\<close>

definition fallback_rules :: "((string \<Rightarrow> bool) \<times> string) list" where
  "fallback_rules =
     [(any_in [''hello'', ''hi'', ''hey'', ''good morning'', ''good afternoon''],
       ''Hello! I'm having some technical difficulties with my AI brain, but I'm here to help as best I can.''),
      (any_in [''how are you'', ''how do you do''],
       ''I'm experiencing some technical issues right now, but thank you for asking! How can I help you?''),
      (any_in [''thank'', ''thanks''],
       ''You're very welcome! Though I should mention I'm having some connectivity issues at the moment.''),
      (any_in [''bye'', ''goodbye'', ''see you'', ''farewell''],
       ''Goodbye! Sorry for any technical difficulties during our conversation. Hope to chat again soon!''),
      (any_in [''help'', ''support'', ''assist''],
       ''I'd love to help you! I'm currently experiencing some technical difficulties, but I'll do my best to assist.''),
      (any_in [''what'', ''how'', ''why'', ''when'', ''where'', ''who''],
       ''That's a great question! Unfortunately, I'm having trouble accessing my full knowledge base right now, but please try asking again in a moment.'')]"

fun first_match :: "(('a \<Rightarrow> bool) \<times> 'b) list \<Rightarrow> 'a \<Rightarrow> 'b option" where
  "first_match [] x = None"
| "first_match ((p, r) # rules) x = (if p x then Some r else first_match rules x)"

definition default_reply :: "string \<Rightarrow> string" where
  "default_reply user_text =
     ''I heard you mention something about '' @ [CHR 0x27] @
     (if length user_text > 50 then take 50 user_text @ ''...'' else user_text) @ [CHR 0x27] @
     ''. I'm experiencing some technical difficulties, but I'm trying to help as best I can.''"

definition contextual_fallback_spec :: "string \<Rightarrow> string" where
  "contextual_fallback_spec user_text =
     (case first_match fallback_rules (lower user_text) of
        Some reply \<Rightarrow> reply
      | None \<Rightarrow> default_reply user_text)"

section \<open>Reading a data reference back\<close>

text \<open>
  What a client does with the emergency reference, the inverse of the two encodings.
  This is not code of the program; it states what "the text itself, encoded" means.
\<close>

definition b64_index :: "char \<Rightarrow> nat" where
  "b64_index c = length (takeWhile (\<lambda>x. x \<noteq> c) b64_alphabet)"

fun b64decode :: "string \<Rightarrow> nat list" where
  "b64decode (c1 # c2 # c3 # c4 # rest) =
     (let a = b64_index c1; b = b64_index c2
      in if c3 = CHR ''='' then [a * 4 + b div 16]
         else let c = b64_index c3
              in if c4 = CHR ''='' then [a * 4 + b div 16, (b mod 16) * 16 + c div 4]
                 else [a * 4 + b div 16, (b mod 16) * 16 + c div 4, (c mod 4) * 64 + b64_index c4]
                      @ b64decode rest)"
| "b64decode cs = []"

fun utf8_decode :: "nat list \<Rightarrow> string" where
  "utf8_decode [] = []"
| "utf8_decode [b] = (if b < 128 then [char_of b] else [])"
| "utf8_decode (b # b2 # bs) =
     (if b < 128 then char_of b # utf8_decode (b2 # bs)
      else char_of ((b - 192) * 64 + (b2 - 128)) # utf8_decode bs)"

definition decode_data_url :: "string \<Rightarrow> string option" where
  "decode_data_url url =
     (if prefix ''data:text/plain;base64,'' url
      then Some (utf8_decode (b64decode (drop 23 url))) else None)"

section \<open>Invariants of the session store\<close>

text \<open>Every session's stored count is the length of its list; every key of the dict
  is one of the identifiers drawn so far.\<close>

definition count_inv :: "ChatHistoryManager \<Rightarrow> bool" where
  "count_inv m =
     list_all (\<lambda>(sid, s). message_count s = int (length (messages s))) (sessions m)"

definition uuid_inv :: "env \<Rightarrow> ChatHistoryManager \<Rightarrow> bool" where
  "uuid_inv e m = list_all (\<lambda>k. k \<in> uuid4 e ` {..<uuid_draws m}) (map fst (sessions m))"

text \<open>A concrete environment for evaluation: the n-th identifier is \<open>u\<close> followed by n
  characters \<open>x\<close>, and the clock returns the number of the read.\<close>

definition env0 :: env where
  "env0 =
     \<lparr>uuid4 = (\<lambda>n. CHR ''u'' # replicate n CHR ''x''), now = (\<lambda>n. n),
      requests_post = (\<lambda>url payload headers timeout.
         PostResponse \<lparr>status_code = 200, body_text = [],
            body_json = Some (JObj [(''audioFile'', JStr ''https://murf.example/a.mp3'')])\<rparr>),
      save_temp_file = (\<lambda>f. Inr ''/tmp/tmp0.webm'')\<rparr>"

definition two_sessions :: ChatHistoryManager where
  "two_sessions = snd (create_session env0 (snd (create_session env0 init_manager)))"

text \<open>A store with one active and one empty session, for evaluation.\<close>

definition demo_ops :: "store_op list" where
  "demo_ops = [CreateSession, CreateSession, AddMessage ''u'' USER ''a'', AddMessage ''u'' ASSISTANT ''b'']"

definition demo_manager :: ChatHistoryManager where
  "demo_manager = (case run_ops env0 demo_ops init_manager of Inr m \<Rightarrow> m | Inl err \<Rightarrow> init_manager)"

text \<open>An input of 59 characters that holds no keyword.\<close>

definition long_text :: string where
  "long_text = ''My cat sat on a red mat and ate a big fat rat today at noon''"

text \<open>A configured synthesis service, an environment whose every post times out,
  and a request.\<close>

definition healthy_tts :: TTSService where
  "healthy_tts =
     \<lparr>tts_api_key = Some ''k3'', api_url = Some ''https://api.murf.ai/v1/speech/generate'',
      tts_timeout = 60, default_voice = ''en-US-AriaNeural'', default_speed = 95,
      default_pitch = 45\<rparr>"

definition env_timeout :: env where
  "env_timeout = env0\<lparr>requests_post := (\<lambda>url payload headers timeout. PostTimeout)\<rparr>"

definition hi_request :: TTSRequest where
  "hi_request = \<lparr>tts_text = ''Hi'', voice_id = Some ''en-US-AriaNeural'', speed = Some 95, pitch = Some 45\<rparr>"

text \<open>Which stage a remote call belongs to.\<close>

fun is_transcription_call :: "ext_call \<Rightarrow> bool" where
  "is_transcription_call (AssemblyAITranscribe path) = True"
| "is_transcription_call c = False"

fun is_generation_call :: "ext_call \<Rightarrow> bool" where
  "is_generation_call (GeminiGenerate context) = True"
| "is_generation_call c = False"

fun is_synthesis_call :: "ext_call \<Rightarrow> bool" where
  "is_synthesis_call (MurfPost url payload) = True"
| "is_synthesis_call c = False"

text \<open>Configured services whose remote ends answer well, a generation client that
  raises, a recogniser that hears nothing, an upload and a JSON text request.\<close>

definition healthy_llm :: LLMService where
  "healthy_llm =
     \<lparr>llm_api_key = Some ''k1'', model_name = ''gemini-1.5-flash'', llm_timeout = 30,
      client = Some (\<lambda>context. GenText ''Hi there! '')\<rparr>"

definition failing_llm :: LLMService where
  "failing_llm = healthy_llm\<lparr>client := Some (\<lambda>context. GenRaises ''503 unavailable'')\<rparr>"

definition healthy_stt :: STTService where
  "healthy_stt =
     \<lparr>stt_api_key = Some ''k2'', stt_timeout = 30,
      stt_client = Some (\<lambda>path. Transcript
        \<lparr>status_is_error = False, transcript_error = [],
         transcript_text = Some '' Tell me a joke '', transcript_confidence = Some (9 / 10)\<rparr>)\<rparr>"

definition silent_stt :: STTService where
  "silent_stt =
     healthy_stt\<lparr>stt_client := Some (\<lambda>path. Transcript
        \<lparr>status_is_error = False, transcript_error = [],
         transcript_text = Some ''  '', transcript_confidence = None\<rparr>)\<rparr>"

definition healthy :: services where
  "healthy = \<lparr>stt_service = healthy_stt, llm_service = healthy_llm, tts_service = healthy_tts\<rparr>"

definition audio0 :: FileStorage where
  "audio0 = \<lparr>filename = Some ''rec.webm'', content_length = 0, file_data = [1, 2, 3]\<rparr>"

definition hello_request :: flask_request where
  "hello_request =
     \<lparr>is_json = True, get_json = Some (JObj [(''text'', JStr ''Hello'')]), form = [], files = []\<rparr>"

definition silent :: services where
  "silent = healthy\<lparr>stt_service := silent_stt\<rparr>"

definition demo_state :: app_state where
  "demo_state = \<lparr>chat_manager = demo_manager, calls = []\<rparr>"

definition degraded :: services where
  "degraded = healthy\<lparr>llm_service := failing_llm\<rparr>"

section \<open>Facts about the session store\<close>

lemma in_keys_iff: "(k \<in> fst ` set al) = (map_of al k \<noteq> None)"
  by (induction al) auto

lemma two_sessions_eval:
  "two_sessions =
     \<lparr>sessions =
        [(''u'', \<lparr>session_id = ''u'', message_count = 0, created_at = 0,
                  last_activity = 0, messages = []\<rparr>),
         (''ux'', \<lparr>session_id = ''ux'', message_count = 0, created_at = 1,
                   last_activity = 1, messages = []\<rparr>)],
      uuid_draws = 2, clock_reads = 2\<rparr>"
  by (simp add: two_sessions_def create_session_def init_manager_def env0_def Let_def)

lemma map_of_keys: "(k \<in> set (map fst al)) = (map_of al k \<noteq> None)"
  by (induction al) auto

lemma create_session_lookup:
  "map_of (sessions (snd (create_session e m))) (fst (create_session e m)) =
     Some \<lparr>session_id = uuid4 e (uuid_draws m), message_count = 0,
           created_at = now e (clock_reads m), last_activity = now e (clock_reads m),
           messages = []\<rparr>"
  by (simp add: create_session_def Let_def update_conv')

subsection \<open>Appending\<close>

lemma add_message_known:
  assumes "map_of (sessions m) sid = Some s"
  shows "add_message e m sid r c =
     Inr (True, m\<lparr>sessions := AList.update sid
            (s\<lparr>messages := messages s @ [\<lparr>role = r, content = c, timestamp = now e (clock_reads m)\<rparr>],
               message_count := 1 + int (length (messages s)),
               last_activity := now e (Suc (clock_reads m))\<rparr>) (sessions m),
          clock_reads := Suc (Suc (clock_reads m))\<rparr>)"
  using assms by (simp add: add_message_def in_keys_iff Let_def)

lemma add_message_unknown:
  assumes "map_of (sessions m) sid = None"
  shows "add_message e m sid r c =
     Inr (True, m\<lparr>sessions := AList.update (uuid4 e (uuid_draws m))
            \<lparr>session_id = uuid4 e (uuid_draws m), message_count = 1,
              created_at = now e (clock_reads m), last_activity = now e (Suc (Suc (clock_reads m))),
              messages = [\<lparr>role = r, content = c, timestamp = now e (Suc (clock_reads m))\<rparr>]\<rparr>
            (sessions m),
          uuid_draws := Suc (uuid_draws m),
          clock_reads := Suc (Suc (Suc (clock_reads m)))\<rparr>)"
  using assms by (simp add: add_message_def in_keys_iff Let_def create_session_def update_conv')

lemma set_update_subset: "set (AList.update k v al) \<subseteq> insert (k, v) (set al)"
  by (induction al) auto

lemma set_delete_subset: "set (AList.delete k al) \<subseteq> set al"
  by (auto simp: AList.delete_eq)

lemma list_all_update:
  "list_all P al \<Longrightarrow> P (k, v) \<Longrightarrow> list_all P (AList.update k v al)"
  using set_update_subset[of k v al] by (auto simp: list_all_iff)

lemma list_all_delete: "list_all P al \<Longrightarrow> list_all P (AList.delete k al)"
  using set_delete_subset[of k al] by (auto simp: list_all_iff)

lemma map_of_in_set: "map_of al k = Some v \<Longrightarrow> (k, v) \<in> set al"
  by (rule map_of_SomeD)

lemma exec_op_total: "\<exists>m'. exec_op e x m = Inr m'"
proof (cases x)
  case (AddMessage sid r c)
  then show ?thesis
    by (cases "map_of (sessions m) sid") (simp_all add: add_message_known add_message_unknown)
qed simp_all

lemma exec_op_count_inv:
  assumes "count_inv m" "exec_op e x m = Inr m'"
  shows "count_inv m'"
proof (cases x)
  case CreateSession
  with assms show ?thesis
    by (auto simp: count_inv_def create_session_def Let_def intro!: list_all_update)
next
  case (AddMessage sid r c)
  show ?thesis
  proof (cases "map_of (sessions m) sid")
    case None
    with assms AddMessage show ?thesis
      by (auto simp: count_inv_def add_message_unknown intro!: list_all_update)
  next
    case (Some s)
    with assms AddMessage show ?thesis
      by (auto simp: count_inv_def add_message_known intro!: list_all_update)
  qed
next
  case (ClearSession sid)
  with assms show ?thesis
    by (auto simp: count_inv_def clear_session_def intro!: list_all_delete)
qed

lemma uuid_inv_grow:
  "list_all (\<lambda>k. k \<in> f ` {..<n}) ks \<Longrightarrow> list_all (\<lambda>k. k \<in> f ` {..<Suc n}) ks"
  by (auto simp: list_all_iff lessThan_Suc)

lemma keys_update: "set (map fst (AList.update k v al)) = insert k (set (map fst al))"
  using dom_update[of k v al] by auto

lemma uuid_inv_create:
  assumes "list_all (\<lambda>k. k \<in> uuid4 e ` {..<n}) (map fst al)"
  shows "list_all (\<lambda>k. k \<in> uuid4 e ` {..<Suc n}) (map fst (AList.update (uuid4 e n) v al))"
proof -
  have "set (map fst (AList.update (uuid4 e n) v al)) = insert (uuid4 e n) (set (map fst al))"
    by (rule keys_update)
  with assms show ?thesis
    unfolding list_all_iff by (auto simp: lessThan_Suc)
qed

lemma uuid_inv_same_keys:
  assumes "list_all P (map fst al)" "map_of al k = Some v0"
  shows "list_all P (map fst (AList.update k v al))"
proof -
  have "k \<in> set (map fst al)" using assms(2) by (metis map_of_eq_None_iff option.distinct(1) set_map)
  then have "set (map fst (AList.update k v al)) = set (map fst al)"
    using keys_update[of k v al] by auto
  with assms(1) show ?thesis unfolding list_all_iff by simp
qed

lemma uuid_inv_delete:
  assumes "list_all P (map fst al)"
  shows "list_all P (map fst (AList.delete k al))"
  using assms by (auto simp: list_all_iff AList.delete_eq)

lemma exec_op_uuid_inv:
  assumes "uuid_inv e m" "exec_op e x m = Inr m'"
  shows "uuid_inv e m'"
proof (cases x)
  case CreateSession
  with assms show ?thesis
    by (auto simp: uuid_inv_def create_session_def Let_def intro!: uuid_inv_create)
next
  case (AddMessage sid r c)
  show ?thesis
  proof (cases "map_of (sessions m) sid")
    case None
    with assms AddMessage show ?thesis
      by (auto simp: uuid_inv_def add_message_unknown intro!: uuid_inv_create)
  next
    case (Some s)
    with assms AddMessage show ?thesis
      by (auto simp: uuid_inv_def add_message_known intro: uuid_inv_same_keys)
  qed
next
  case (ClearSession sid)
  with assms show ?thesis
    by (auto simp: uuid_inv_def clear_session_def intro!: uuid_inv_delete)
qed

lemma fresh_uuid:
  assumes "inj (uuid4 e)" "uuid_inv e m"
  shows "map_of (sessions m) (uuid4 e (uuid_draws m)) = None"
proof (rule ccontr)
  assume "map_of (sessions m) (uuid4 e (uuid_draws m)) \<noteq> None"
  then have "uuid4 e (uuid_draws m) \<in> set (map fst (sessions m))"
    by (metis map_of_eq_None_iff set_map)
  with assms(2) obtain i where "i < uuid_draws m" "uuid4 e (uuid_draws m) = uuid4 e i"
    by (auto simp: uuid_inv_def list_all_iff)
  with assms(1) show False by (auto dest: injD)
qed

lemma exec_op_append_only:
  assumes "inj (uuid4 e)" "uuid_inv e m" "exec_op e x m = Inr m'"
    and "get_session m sid = Some s" "x \<noteq> ClearSession sid"
  shows "\<exists>s'. get_session m' sid = Some s' \<and>
           (messages s' = messages s \<or> (\<exists>msg. messages s' = messages s @ [msg]))"
proof -
  have fresh: "uuid4 e (uuid_draws m) \<noteq> sid"
    using fresh_uuid[OF assms(1,2)] assms(4) by (auto simp: get_session_def)
  show ?thesis
  proof (cases x)
    case CreateSession
    with assms fresh show ?thesis
      by (auto simp: create_session_def Let_def get_session_def update_conv')
  next
    case (AddMessage sid2 r c)
    show ?thesis
    proof (cases "map_of (sessions m) sid2")
      case None
      with assms fresh AddMessage show ?thesis
        by (auto simp: add_message_unknown get_session_def update_conv')
    next
      case (Some s2)
      with assms AddMessage show ?thesis
        by (cases "sid2 = sid") (auto simp: add_message_known get_session_def update_conv')
    qed
  next
    case (ClearSession sid2)
    with assms show ?thesis
      by (auto simp: clear_session_def get_session_def)
  qed
qed

lemma run_ops_append: "run_ops e (xs @ ys) m = (case run_ops e xs m of Inl err \<Rightarrow> Inl err | Inr m' \<Rightarrow> run_ops e ys m')"
  by (induction xs arbitrary: m) (auto split: sum.splits)

lemma run_ops_total: "\<exists>m'. run_ops e xs m = Inr m'"
proof (induction xs arbitrary: m)
  case (Cons x xs)
  obtain m1 where "exec_op e x m = Inr m1" using exec_op_total by blast
  with Cons show ?case by simp
qed simp

lemma run_ops_invs:
  assumes "count_inv m" "uuid_inv e m" "run_ops e xs m = Inr m'"
  shows "count_inv m' \<and> uuid_inv e m'"
  using assms
proof (induction xs arbitrary: m)
  case (Cons x xs)
  obtain m1 where m1: "exec_op e x m = Inr m1" using exec_op_total by blast
  with Cons.prems have "run_ops e xs m1 = Inr m'" by simp
  moreover have "count_inv m1" "uuid_inv e m1"
    using exec_op_count_inv[OF Cons.prems(1) m1] exec_op_uuid_inv[OF Cons.prems(2) m1] by auto
  ultimately show ?case using Cons.IH by blast
qed simp

lemma run_ops_append_only:
  assumes "inj (uuid4 e)" "uuid_inv e m" "run_ops e xs m = Inr m'"
    and "get_session m sid = Some s" "ClearSession sid \<notin> set xs"
  shows "\<exists>s'. get_session m' sid = Some s' \<and> prefix (messages s) (messages s')"
  using assms(2-)
proof (induction xs arbitrary: m s)
  case Nil
  then show ?case by auto
next
  case (Cons x xs)
  obtain m1 where m1: "exec_op e x m = Inr m1" using exec_op_total by blast
  from Cons.prems have ne: "x \<noteq> ClearSession sid" by auto
  from exec_op_append_only[OF assms(1) Cons.prems(1) m1 Cons.prems(3) ne]
  obtain s1 where s1: "get_session m1 sid = Some s1" "prefix (messages s) (messages s1)"
    by auto
  have "uuid_inv e m1" using exec_op_uuid_inv[OF Cons.prems(1) m1] .
  moreover have "run_ops e xs m1 = Inr m'" using Cons.prems(2) m1 by simp
  moreover have "ClearSession sid \<notin> set xs" using Cons.prems(4) by simp
  ultimately obtain s' where "get_session m' sid = Some s'" "prefix (messages s1) (messages s')"
    using Cons.IH[OF _ _ s1(1)] by blast
  with s1(2) show ?case by (auto intro: prefix_order.trans)
qed

lemma init_invs: "count_inv init_manager" "uuid_inv e init_manager"
  by (simp_all add: count_inv_def uuid_inv_def init_manager_def)

lemma add_message_total: "\<exists>m'. add_message e m sid r c = Inr (True, m')"
  by (cases "map_of (sessions m) sid") (simp_all add: add_message_known add_message_unknown)

lemma history_unknown:
  "get_session m sid = None \<Longrightarrow> get_chat_history m sid = [] \<and> get_recent_messages m sid n = []"
  by (simp add: get_session_def get_chat_history_def get_recent_messages_def)

lemma add_message_unknown_history:
  assumes "get_session m sid = None" and "uuid4 e (uuid_draws m) \<noteq> sid"
  shows "\<exists>m'. add_message e m sid r c = Inr (True, m') \<and> get_chat_history m' sid = []
      \<and> get_session m' sid = None
      \<and> get_chat_history m' (uuid4 e (uuid_draws m)) = [\<lparr>role = r, content = c, timestamp = now e (Suc (clock_reads m))\<rparr>]"
  using assms
  by (simp add: add_message_unknown get_session_def get_chat_history_def update_conv')

lemma slice_from_neg:
  "1 \<le> n \<Longrightarrow> slice_from (- n) xs = drop (length xs - nat n) xs"
  by (auto simp: slice_from_def Let_def max_def nat_diff_distrib' intro: arg_cong[where f="\<lambda>k. drop k xs"])

lemma slice_from_zero: "slice_from 0 xs = xs"
  by (simp add: slice_from_def)

lemma recent_after_add:
  assumes "get_session m sid = Some s" "1 \<le> n"
  shows "\<exists>m'. add_message e m sid r c = Inr (True, m') \<and>
     get_chat_history m' sid = messages s @ [\<lparr>role = r, content = c, timestamp = now e (clock_reads m)\<rparr>] \<and>
     get_recent_messages m' sid n =
       drop (length (get_chat_history m' sid) - min (nat n) (length (get_chat_history m' sid))) (get_chat_history m' sid)"
  using assms
  by (simp add: add_message_known get_session_def get_chat_history_def get_recent_messages_def
       update_conv' slice_from_neg min_def)

text \<open>
  C2, at an unknown id: \<open>add_message\<close> on the empty store with the id \<open>s1\<close> answers
  true, but the session it creates is keyed by the fresh identifier \<open>u\<close> that
  \<open>create_session\<close> drew, and the message is stored there.  No session exists for
  \<open>s1\<close> afterwards and its history is empty.
\<close>

theorem add_message_unknown_id_lost:
  "(case add_message env0 init_manager ''s1'' USER ''hi'' of
      Inl err \<Rightarrow> False
    | Inr (ok, m) \<Rightarrow>
        ok \<and> get_session m ''s1'' = None \<and> get_chat_history m ''s1'' = []
        \<and> map fst (sessions m) = [''u'']
        \<and> get_chat_history m ''u'' = [\<lparr>role = USER, content = ''hi'', timestamp = 1\<rparr>])"
  by (simp add: add_message_def create_session_def init_manager_def env0_def Let_def
      get_session_def get_chat_history_def)

text \<open>
  C5, at the limit 0: after two appends to one session, \<open>get_recent_messages\<close> with
  limit 1 gives the last message, and with limit 0 gives the whole history, not the
  last 0 messages (\<open>messages[-0:]\<close> is \<open>messages[0:]\<close>).
\<close>

theorem recent_zero_returns_all:
  "(case run_ops env0 [CreateSession, AddMessage ''u'' USER ''a'', AddMessage ''u'' ASSISTANT ''b''] init_manager of
      Inl err \<Rightarrow> False
    | Inr m \<Rightarrow>
        map content (get_chat_history m ''u'') = [''a'', ''b'']
        \<and> map content (get_recent_messages m ''u'' 1) = [''b'']
        \<and> map content (get_recent_messages m ''u'' 0) = [''a'', ''b''])"
  by (simp add: add_message_def create_session_def init_manager_def env0_def Let_def
      get_chat_history_def get_recent_messages_def slice_from_def)

subsection \<open>Sequences of operations\<close>

lemma inj_env0: "inj (uuid4 env0)"
  by (simp add: env0_def inj_def)

lemma demo_run: "run_ops env0 demo_ops init_manager = Inr
   \<lparr>sessions =
        [(''u'', \<lparr>session_id = ''u'', message_count = 2, created_at = 0, last_activity = 5,
                  messages = [\<lparr>role = USER, content = ''a'', timestamp = 2\<rparr>,
                              \<lparr>role = ASSISTANT, content = ''b'', timestamp = 4\<rparr>]\<rparr>),
         (''ux'', \<lparr>session_id = ''ux'', message_count = 0, created_at = 1,
                   last_activity = 1, messages = []\<rparr>)],
      uuid_draws = 2, clock_reads = 6\<rparr>"
  by (simp add: demo_ops_def add_message_def create_session_def init_manager_def env0_def Let_def)

lemma demo_manager_eval: "demo_manager =
   \<lparr>sessions =
        [(''u'', \<lparr>session_id = ''u'', message_count = 2, created_at = 0, last_activity = 5,
                  messages = [\<lparr>role = USER, content = ''a'', timestamp = 2\<rparr>,
                              \<lparr>role = ASSISTANT, content = ''b'', timestamp = 4\<rparr>]\<rparr>),
         (''ux'', \<lparr>session_id = ''ux'', message_count = 0, created_at = 1,
                   last_activity = 1, messages = []\<rparr>)],
      uuid_draws = 2, clock_reads = 6\<rparr>"
  by (simp add: demo_manager_def demo_run)

text \<open>
  C8: when \<open>uuid4\<close> never repeats an identifier, after any sequence \<open>xs\<close> of
  \<open>create_session\<close>, \<open>add_message\<close> and \<open>clear_session\<close> from the empty store, continued
  by any sequence \<open>ys\<close>: no operation raises; every session's stored \<open>message_count\<close>
  is the length of its message list (which is its history); and a session present after
  \<open>xs\<close> that \<open>ys\<close> does not clear is still present after \<open>ys\<close>, with its earlier
  messages as a prefix of its messages: nothing was reordered, changed or removed.
\<close>

theorem session_log_append_only:
  assumes "inj (uuid4 e)"
  shows "\<exists>m1 m2. run_ops e xs init_manager = Inr m1 \<and> run_ops e ys m1 = Inr m2
     \<and> run_ops e (xs @ ys) init_manager = Inr m2
     \<and> (\<forall>sid s. get_session m2 sid = Some s \<longrightarrow> message_count s = int (length (messages s)))
     \<and> (\<forall>sid s. get_session m2 sid = Some s \<longrightarrow> length (get_chat_history m2 sid) = length (messages s))
     \<and> (\<forall>sid s. get_session m1 sid = Some s \<and> ClearSession sid \<notin> set ys \<longrightarrow>
            (\<exists>s'. get_session m2 sid = Some s' \<and> prefix (messages s) (messages s')))"
proof -
  obtain m1 where m1: "run_ops e xs init_manager = Inr m1" using run_ops_total by blast
  obtain m2 where m2: "run_ops e ys m1 = Inr m2" using run_ops_total by blast
  have both: "run_ops e (xs @ ys) init_manager = Inr m2"
    using m1 m2 by (simp add: run_ops_append)
  have inv1: "uuid_inv e m1"
    using run_ops_invs[OF init_invs(1) init_invs(2) m1] by simp
  have inv2: "count_inv m2"
    using run_ops_invs[OF init_invs(1) init_invs(2) both] by simp
  have cnt: "\<forall>sid s. get_session m2 sid = Some s \<longrightarrow> message_count s = int (length (messages s))"
  proof (intro allI impI)
    fix sid s assume "get_session m2 sid = Some s"
    then have "(sid, s) \<in> set (sessions m2)" by (simp add: get_session_def map_of_SomeD)
    with inv2 show "message_count s = int (length (messages s))"
      by (auto simp: count_inv_def list_all_iff)
  qed
  have hist: "\<forall>sid s. get_session m2 sid = Some s \<longrightarrow> length (get_chat_history m2 sid) = length (messages s)"
    by (simp add: get_session_def get_chat_history_def)
  have grow: "\<forall>sid s. get_session m1 sid = Some s \<and> ClearSession sid \<notin> set ys \<longrightarrow>
            (\<exists>s'. get_session m2 sid = Some s' \<and> prefix (messages s) (messages s'))"
    using run_ops_append_only[OF assms inv1 m2] by blast
  show ?thesis using m1 m2 both cnt hist grow by blast
qed

theorem session_log_append_only_witness:
  "inj (uuid4 env0)
   \<and> (\<exists>m1 m2. run_ops env0 [CreateSession, AddMessage ''u'' USER ''a''] init_manager = Inr m1
        \<and> run_ops env0 [AddMessage ''zz'' USER ''q'', AddMessage ''u'' ASSISTANT ''b'', ClearSession ''ux''] m1 = Inr m2
        \<and> get_session m1 ''u'' \<noteq> None
        \<and> ClearSession ''u'' \<notin> set [AddMessage ''zz'' USER ''q'', AddMessage ''u'' ASSISTANT ''b'', ClearSession ''ux'']
        \<and> map content (get_chat_history m1 ''u'') = [''a'']
        \<and> map content (get_chat_history m2 ''u'') = [''a'', ''b'']
        \<and> map_option message_count (get_session m2 ''u'') = Some 2)"
proof -
  have i: "inj (uuid4 env0)" by (rule inj_env0)
  from session_log_append_only[OF i, of "[CreateSession, AddMessage ''u'' USER ''a'']"
      "[AddMessage ''zz'' USER ''q'', AddMessage ''u'' ASSISTANT ''b'', ClearSession ''ux'']"]
  obtain m1 m2 where
    r1: "run_ops env0 [CreateSession, AddMessage ''u'' USER ''a''] init_manager = Inr m1" and
    r2: "run_ops env0 [AddMessage ''zz'' USER ''q'', AddMessage ''u'' ASSISTANT ''b'', ClearSession ''ux''] m1 = Inr m2"
    by blast
  have e1: "m1 = \<lparr>sessions = [(''u'', \<lparr>session_id = ''u'', message_count = 1, created_at = 0, last_activity = 2,
                  messages = [\<lparr>role = USER, content = ''a'', timestamp = 1\<rparr>]\<rparr>)], uuid_draws = 1, clock_reads = 3\<rparr>"
    using r1 by (auto simp add: add_message_def create_session_def init_manager_def env0_def Let_def
        numeral_2_eq_2 numeral_3_eq_3)
  have e2: "map content (get_chat_history m2 ''u'') = [''a'', ''b''] \<and> map_option message_count (get_session m2 ''u'') = Some 2"
    using r2 unfolding e1
    by (auto simp add: add_message_def create_session_def env0_def Let_def clear_session_def
        get_chat_history_def get_session_def)
  show ?thesis
    using i r1 r2 e2 by (auto simp: e1 get_chat_history_def get_session_def)
qed

subsection \<open>Statistics\<close>

lemma length_card_dom:
  "distinct (map fst al) \<Longrightarrow> length al = card (dom (map_of al))"
  by (metis dom_map_of_conv_image_fst distinct_card length_map set_map)

lemma sum_list_dom:
  assumes "distinct (map fst al)"
  shows "sum_list (map (\<lambda>(k, s). f s) al) = (\<Sum>k\<in>dom (map_of al). f (the (map_of al k)))"
  using assms
proof (induction al)
  case Nil
  then show ?case by simp
next
  case (Cons p al)
  obtain k v where p: "p = (k, v)" by (cases p)
  from Cons.prems p have nin: "k \<notin> dom (map_of al)" and d: "distinct (map fst al)"
    by (auto simp: dom_map_of_conv_image_fst)
  have fin: "finite (dom (map_of al))" by (rule finite_dom_map_of)
  have "(\<Sum>x\<in>dom (map_of (p # al)). f (the (map_of (p # al) x)))
        = (\<Sum>x\<in>insert k (dom (map_of al)). f (the (if x = k then Some v else map_of al x)))"
    using p by (auto intro!: sum.cong)
  also have "\<dots> = f v + (\<Sum>x\<in>dom (map_of al). f (the (if x = k then Some v else map_of al x)))"
    using fin nin by simp
  also have "(\<Sum>x\<in>dom (map_of al). f (the (if x = k then Some v else map_of al x)))
        = (\<Sum>x\<in>dom (map_of al). f (the (map_of al x)))"
    using nin by (intro sum.cong) auto
  finally show ?case using Cons.IH[OF d] p by simp
qed

lemma active_set:
  assumes "distinct (map fst al)"
  shows "set (map fst (filter (\<lambda>(k, s). P s) al)) = {k. \<exists>s. map_of al k = Some s \<and> P s}"
  using assms by (auto simp: map_of_eq_Some_iff image_iff)

lemma distinct_active:
  "distinct (map fst al) \<Longrightarrow> distinct (map fst (filter Q al))"
  by (simp add: distinct_map_filter)

text \<open>
  C10: on a store whose dict has each key once, \<open>get_session_stats\<close> reports the number
  of stored sessions, the sum of their message counts, and as active sessions exactly
  (and once each) the ids whose count is positive.  The session that \<open>create_session\<close>
  adds has count 0: it is among the stored sessions that \<open>total_sessions\<close> counts and
  is not in the active list.
\<close>

theorem session_stats_correct:
  assumes "distinct (map fst (sessions m))"
  shows "total_sessions (get_session_stats m) = int (card (dom (get_session m)))
     \<and> total_messages (get_session_stats m)
         = (\<Sum>sid\<in>dom (get_session m). message_count (the (get_session m sid)))
     \<and> set (active_sessions (get_session_stats m))
         = {sid. \<exists>s. get_session m sid = Some s \<and> message_count s > 0}
     \<and> distinct (active_sessions (get_session_stats m))
     \<and> (case create_session e m of
           (sid, m') \<Rightarrow>
             distinct (map fst (sessions m'))
             \<and> map_option message_count (get_session m' sid) = Some 0
             \<and> sid \<in> dom (get_session m')
             \<and> total_sessions (get_session_stats m') = int (card (dom (get_session m')))
             \<and> sid \<notin> set (active_sessions (get_session_stats m')))"
proof -
  have gs: "get_session m = map_of (sessions m)" by (rule ext) (simp add: get_session_def)
  have a: "total_sessions (get_session_stats m) = int (card (dom (get_session m)))"
    using length_card_dom[OF assms] by (simp add: get_session_stats_def gs)
  have b: "total_messages (get_session_stats m)
         = (\<Sum>sid\<in>dom (get_session m). message_count (the (get_session m sid)))"
    using sum_list_dom[OF assms, of message_count] by (simp add: get_session_stats_def gs)
  have c: "set (active_sessions (get_session_stats m))
         = {sid. \<exists>s. get_session m sid = Some s \<and> message_count s > 0}"
    using active_set[OF assms, of "\<lambda>s. message_count s > 0"] by (simp add: get_session_stats_def gs)
  have d: "distinct (active_sessions (get_session_stats m))"
    using distinct_active[OF assms] by (simp add: get_session_stats_def)
  obtain sid m' where cs: "create_session e m = (sid, m')" by (cases "create_session e m")
  have d': "distinct (map fst (sessions m'))"
    using cs assms by (auto simp: create_session_def Let_def distinct_update)
  have gs': "get_session m' = map_of (sessions m')" by (rule ext) (simp add: get_session_def)
  have z: "map_option message_count (get_session m' sid) = Some 0"
    using cs by (auto simp: create_session_def Let_def get_session_def update_conv')
  then have indom: "sid \<in> dom (get_session m')" by (auto simp: dom_def)
  have a': "total_sessions (get_session_stats m') = int (card (dom (get_session m')))"
    using length_card_dom[OF d'] by (simp add: get_session_stats_def gs')
  have "set (active_sessions (get_session_stats m'))
         = {sid. \<exists>s. get_session m' sid = Some s \<and> message_count s > 0}"
    using active_set[OF d', of "\<lambda>s. message_count s > 0"] by (simp add: get_session_stats_def gs')
  with z have na: "sid \<notin> set (active_sessions (get_session_stats m'))" by auto
  show ?thesis using a b c d d' z indom a' na by (simp add: cs)
qed

theorem session_stats_correct_witness:
  "distinct (map fst (sessions demo_manager))
   \<and> total_sessions (get_session_stats demo_manager) = 2
   \<and> card (dom (get_session demo_manager)) = 2
   \<and> total_messages (get_session_stats demo_manager) = 2
   \<and> active_sessions (get_session_stats demo_manager) = [''u'']
   \<and> fst (create_session env0 demo_manager) = ''uxx''
   \<and> active_sessions (get_session_stats (snd (create_session env0 demo_manager))) = [''u'']
   \<and> total_sessions (get_session_stats (snd (create_session env0 demo_manager))) = 3"
proof -
  have d: "distinct (map fst (sessions demo_manager))" by (simp add: demo_manager_eval)
  have t: "total_sessions (get_session_stats demo_manager) = 2"
    by (simp add: demo_manager_eval get_session_stats_def)
  from session_stats_correct[OF d, of env0] t
  have c: "card (dom (get_session demo_manager)) = 2" by simp
  show ?thesis
    using d t c
    by (simp add: demo_manager_eval get_session_stats_def create_session_def env0_def Let_def
        numeral_2_eq_2)
qed

subsection \<open>Clearing a session\<close>

text \<open>
  C9: \<open>clear_session\<close> returns true exactly when a session with the id existed, and then
  the session is gone while every other session is untouched; a second call right after
  returns false, changes nothing and raises nothing (the function has no failing branch),
  and the history of the id is empty afterwards.
\<close>

theorem clear_session_idempotent:
  "fst (clear_session m sid) = (get_session m sid \<noteq> None)
   \<and> get_session (snd (clear_session m sid)) sid = None
   \<and> (\<forall>k. k \<noteq> sid \<longrightarrow> get_session (snd (clear_session m sid)) k = get_session m k)
   \<and> clear_session (snd (clear_session m sid)) sid = (False, snd (clear_session m sid))
   \<and> get_chat_history (snd (clear_session m sid)) sid = []
   \<and> get_chat_history (snd (clear_session (snd (clear_session m sid)) sid)) sid = []"
proof -
  have gone: "map_of (sessions (snd (clear_session m sid))) sid = None"
    by (simp add: clear_session_def delete_conv' in_keys_iff)
  have again: "clear_session (snd (clear_session m sid)) sid = (False, snd (clear_session m sid))"
    using gone by (simp add: clear_session_def[of "snd (clear_session m sid)"] in_keys_iff)
  have others: "\<forall>k. k \<noteq> sid \<longrightarrow> get_session (snd (clear_session m sid)) k = get_session m k"
    by (simp add: clear_session_def get_session_def)
  have ret: "fst (clear_session m sid) = (get_session m sid \<noteq> None)"
    by (simp add: clear_session_def get_session_def in_keys_iff)
  show ?thesis
    using gone again others ret by (simp add: get_session_def get_chat_history_def)
qed

theorem clear_session_idempotent_witness:
  "fst (clear_session two_sessions ''u'')
   \<and> ''ux'' \<noteq> ''u''
   \<and> get_session (snd (clear_session two_sessions ''u'')) ''ux'' = get_session two_sessions ''ux''
   \<and> get_session two_sessions ''ux'' \<noteq> None
   \<and> \<not> fst (clear_session (snd (clear_session two_sessions ''u'')) ''u'')
   \<and> \<not> fst (clear_session two_sessions ''zz'')"
  using clear_session_idempotent [of two_sessions "''u''"]
    clear_session_idempotent [of two_sessions "''zz''"]
  by (simp add: two_sessions_eval get_session_def)

section \<open>Facts about the fallback reply\<close>

text \<open>Evaluating \<open>char_of\<close> on a numeral.\<close>

lemmas char_eval = char_of_def bit_Suc_0_iff

lemma fallback_eq_spec:
  "user_text \<noteq> [] \<Longrightarrow> generate_contextual_fallback user_text = contextual_fallback_spec user_text"
  by (simp add: generate_contextual_fallback_def contextual_fallback_spec_def fallback_rules_def
      default_reply_def Let_def)

lemma fallback_nonempty: "generate_contextual_fallback user_text \<noteq> []"
  by (simp add: generate_contextual_fallback_def Let_def)

lemma rules_nonempty: "list_all (\<lambda>(p, reply). reply \<noteq> []) fallback_rules"
  by (simp add: fallback_rules_def)

text \<open>
  C7 as stated fails at the empty input: the rule list finds no keyword in it and its
  default reply would quote the (empty) input, but the function answers with the
  sentence of its guard \<open>if not user_text\<close>.
\<close>

theorem contextual_fallback_empty_input_counterexample:
  "generate_contextual_fallback [] \<noteq> contextual_fallback_spec []"
  by (simp add: generate_contextual_fallback_def contextual_fallback_spec_def fallback_rules_def
      default_reply_def lower_def any_in_def)

text \<open>
  C7, amended: \<open>generate_contextual_fallback\<close> is a function of its argument alone.  On
  every non-empty input it returns what the ordered rule list gives on the lower-cased
  input (first match wins, default last); on the empty input it returns the sentence
  of its guard; the result is never empty, and neither is any reply of the table.  In
  the default branch the reply quotes the first 50 characters of the input followed by
  three dots when the input is longer than 50 characters, and the whole input
  otherwise.
\<close>

theorem contextual_fallback_classifies:
  "(user_text \<noteq> [] \<longrightarrow> generate_contextual_fallback user_text = contextual_fallback_spec user_text)
   \<and> generate_contextual_fallback [] = ''I didn't catch that. Could you please repeat your message?''
   \<and> generate_contextual_fallback user_text \<noteq> []
   \<and> list_all (\<lambda>(p, reply). reply \<noteq> []) fallback_rules
   \<and> (user_text \<noteq> [] \<and> first_match fallback_rules (lower user_text) = None \<longrightarrow>
        generate_contextual_fallback user_text =
          ''I heard you mention something about '' @ [CHR 0x27] @
          (if length user_text > 50 then take 50 user_text @ ''...'' else user_text) @ [CHR 0x27] @
          ''. I'm experiencing some technical difficulties, but I'm trying to help as best I can.'')"
proof -
  have d: "user_text \<noteq> [] \<and> first_match fallback_rules (lower user_text) = None \<longrightarrow>
        generate_contextual_fallback user_text = default_reply user_text"
    by (simp add: fallback_eq_spec contextual_fallback_spec_def)
  have e: "generate_contextual_fallback [] = ''I didn't catch that. Could you please repeat your message?''"
    by (simp add: generate_contextual_fallback_def)
  show ?thesis
    using d e fallback_eq_spec[of user_text] fallback_nonempty[of user_text] rules_nonempty
    by (simp add: default_reply_def)
qed

lemma long_text_default: "first_match fallback_rules (lower long_text) = None"
  by (simp add: long_text_def fallback_rules_def any_in_def lower_def lower_char_def Let_def
      sublist_code char_eval)

theorem contextual_fallback_classifies_witness:
  "''Which one'' \<noteq> []
   \<and> generate_contextual_fallback ''Which one'' =
       ''Hello! I'm having some technical difficulties with my AI brain, but I'm here to help as best I can.''
   \<and> long_text \<noteq> [] \<and> first_match fallback_rules (lower long_text) = None
   \<and> length long_text = 59
   \<and> generate_contextual_fallback long_text =
       ''I heard you mention something about '' @ [CHR 0x27] @
       ''My cat sat on a red mat and ate a big fat rat toda...'' @ [CHR 0x27] @
       ''. I'm experiencing some technical difficulties, but I'm trying to help as best I can.''"
proof -
  have a: "contextual_fallback_spec ''Which one'' =
       ''Hello! I'm having some technical difficulties with my AI brain, but I'm here to help as best I can.''"
    by (simp add: contextual_fallback_spec_def fallback_rules_def any_in_def lower_def lower_char_def Let_def
      sublist_code char_eval)
  have n: "long_text \<noteq> []" "length long_text = 59" by (simp_all add: long_text_def)
  have t: "take 50 long_text = ''My cat sat on a red mat and ate a big fat rat toda''"
    by (simp add: long_text_def)
  have w: "''Which one'' \<noteq> []" by simp
  have g1: "generate_contextual_fallback ''Which one'' = contextual_fallback_spec ''Which one''"
    using contextual_fallback_classifies[of "''Which one''", THEN conjunct1] w by (rule mp)
  have "generate_contextual_fallback long_text =
          ''I heard you mention something about '' @ [CHR 0x27] @
          (if length long_text > 50 then take 50 long_text @ ''...'' else long_text) @ [CHR 0x27] @
          ''. I'm experiencing some technical difficulties, but I'm trying to help as best I can.''"
    using contextual_fallback_classifies[of long_text, THEN conjunct2, THEN conjunct2, THEN conjunct2,
        THEN conjunct2] n(1) long_text_default by blast
  then have g2: "generate_contextual_fallback long_text =
       ''I heard you mention something about '' @ [CHR 0x27] @
       ''My cat sat on a red mat and ate a big fat rat toda...'' @ [CHR 0x27] @
       ''. I'm experiencing some technical difficulties, but I'm trying to help as best I can.''"
    by (simp only: n t) simp
  show ?thesis
    using w n long_text_default g2 g1[unfolded a] by blast
qed

section \<open>Facts about the synthesis service\<close>

subsection \<open>The encodings can be read back\<close>

lemma takeWhile_nth_distinct:
  "distinct xs \<Longrightarrow> i < length xs \<Longrightarrow> length (takeWhile (\<lambda>x. x \<noteq> xs ! i) xs) = i"
proof (induction xs arbitrary: i)
  case Nil
  then show ?case by simp
next
  case (Cons x xs)
  show ?case
  proof (cases i)
    case 0
    then show ?thesis by simp
  next
    case (Suc j)
    with Cons.prems have "j < length xs" "xs ! j \<in> set xs" "x \<notin> set xs" by auto
    then have "x \<noteq> xs ! j" by auto
    with Suc Cons show ?thesis by simp
  qed
qed

lemma b64_alphabet_length: "length b64_alphabet = 64"
  by (simp add: b64_alphabet_def)

lemma b64_alphabet_distinct: "distinct b64_alphabet"
  by (simp add: b64_alphabet_def)

lemma b64_index_char: "v < 64 \<Longrightarrow> b64_index (b64_char v) = v"
  using takeWhile_nth_distinct[OF b64_alphabet_distinct, of v]
  by (simp add: b64_index_def b64_char_def b64_alphabet_length)

lemma b64_char_not_pad: "b64_char v \<noteq> CHR ''=''"
proof -
  have "b64_char v \<in> set b64_alphabet"
    by (simp add: b64_char_def b64_alphabet_length)
  moreover have "CHR ''='' \<notin> set b64_alphabet" by (simp add: b64_alphabet_def)
  ultimately show ?thesis by auto
qed

lemma b64_roundtrip:
  "\<forall>x\<in>set bs. x < 256 \<Longrightarrow> b64decode (b64encode bs) = bs"
proof (induction bs rule: b64encode.induct)
  case 1
  then show ?case by simp
next
  case (2 a)
  then have "a < 256" by simp
  then have "a div 4 < 64" "(a mod 4) * 16 < 64" by auto
  then show ?case by (simp add: b64_index_char b64_char_not_pad Let_def)
next
  case (3 a b)
  then have "a < 256" "b < 256" by simp_all
  then have "a div 4 < 64" "(a mod 4) * 16 + b div 16 < 64" "(b mod 16) * 4 < 64" by auto
  moreover have "((a mod 4) * 16 + b div 16) div 16 = a mod 4" "((a mod 4) * 16 + b div 16) mod 16 = b div 16"
    using \<open>b < 256\<close> by auto
  ultimately show ?case by (simp add: b64_index_char b64_char_not_pad Let_def)
next
  case (4 a b c rest)
  then have lt: "a < 256" "b < 256" "c < 256" and rest: "\<forall>x\<in>set rest. x < 256" by simp_all
  then have "a div 4 < 64" "(a mod 4) * 16 + b div 16 < 64" "(b mod 16) * 4 + c div 64 < 64" "c mod 64 < 64" by auto
  moreover have "((a mod 4) * 16 + b div 16) div 16 = a mod 4" "((a mod 4) * 16 + b div 16) mod 16 = b div 16"
    "((b mod 16) * 4 + c div 64) div 4 = b mod 16" "((b mod 16) * 4 + c div 64) mod 4 = c div 64"
    using lt by auto
  ultimately show ?case using "4.IH"[OF rest] by (simp add: b64_index_char b64_char_not_pad Let_def)
qed

lemma utf8_decode_ascii: "b < 128 \<Longrightarrow> utf8_decode (b # bs) = char_of b # utf8_decode bs"
  by (cases bs) simp_all

lemma utf8_roundtrip: "utf8_decode (utf8_encode s) = s"
proof (induction s)
  case Nil
  then show ?case by (simp add: utf8_encode_def)
next
  case (Cons c s)
  have step: "utf8_encode (c # s) = (let n = (of_char c :: nat) in if n < 128 then [n] else [192 + n div 64, 128 + n mod 64]) @ utf8_encode s"
    by (simp add: utf8_encode_def)
  show ?case
  proof (cases "(of_char c :: nat) < 128")
    case True
    then show ?thesis using Cons by (simp add: step utf8_decode_ascii)
  next
    case False
    then have "\<not> 192 + (of_char c :: nat) div 64 < 128" by simp
    moreover have "(of_char c :: nat) div 64 * 64 + of_char c mod 64 = of_char c" by simp
    ultimately show ?thesis using False Cons by (simp add: step Let_def)
  qed
qed

lemma utf8_bytes: "\<forall>x\<in>set (utf8_encode s). x < 256"
proof -
  have b: "(of_char c :: nat) < 256" for c :: char by simp
  have "192 + (of_char c :: nat) div 64 < 256 \<and> 128 + (of_char c :: nat) mod 64 < 256" for c :: char
    using b[of c] by arith
  with b show ?thesis by (auto simp: utf8_encode_def Let_def)
qed

lemma decode_fallback: "generate_emergency_fallback t = Some url \<Longrightarrow> decode_data_url url = Some t"
  using b64_roundtrip[OF utf8_bytes, of t]
  by (auto simp: generate_emergency_fallback_def decode_data_url_def Let_def utf8_roundtrip)

subsection \<open>Every failure carries the emergency reference\<close>

lemma process_murf_response_failure:
  assumes "process_murf_response h t = Inr r" "\<not> tts_success r"
  shows "emergency_fallback r = generate_emergency_fallback t \<and> audio_url r = None"
  using assms
  by (auto simp: process_murf_response_def tts_failure_def
      split: if_splits option.splits json.splits)

lemma process_murf_response_modes:
  assumes "process_murf_response h t = Inr r"
  shows "(status_code h \<noteq> 200 \<longrightarrow> \<not> tts_success r \<and> tts_error_type r = Some API_ERROR)
    \<and> (status_code h = 200 \<and> body_json h = None \<longrightarrow> \<not> tts_success r \<and> tts_error_type r = Some API_ERROR)
    \<and> (\<forall>kvs. status_code h = 200 \<and> body_json h = Some (JObj kvs)
            \<and> (case map_of kvs ''audioFile'' of None \<Rightarrow> True | Some v \<Rightarrow> \<not> truthy v)
          \<longrightarrow> \<not> tts_success r \<and> tts_error_type r = Some TTS_ERROR)"
  using assms
  by (auto simp: process_murf_response_def tts_failure_def
      split: if_splits option.splits json.splits)

lemma process_murf_response_raises:
  assumes "process_murf_response h t = Inl err"
  shows "status_code h = 200 \<and> (\<exists>d. body_json h = Some d \<and> (\<forall>kvs. d \<noteq> JObj kvs))"
  using assms
  by (auto simp: process_murf_response_def tts_failure_def
      split: if_splits option.splits json.splits)

text \<open>
  C6: whatever the service's configuration and whatever the remote end does, when
  \<open>synthesize_speech\<close> reports a failure its result carries the emergency fallback
  \<open>data:text/plain;base64,\<close> followed by the base64 of the UTF-8 bytes of the request's
  text, from which the text reads back, and no audio reference.  At most one post is
  made (none when the service is not configured), so the fallback costs no second
  call.  Each of the named conditions is a failure: service not configured
  (\<open>CONFIG_ERROR\<close>), timeout (\<open>TIMEOUT_ERROR\<close>), another transport error
  (\<open>NETWORK_ERROR\<close>), any other exception (\<open>TTS_ERROR\<close>), a status other than 200
  (\<open>API_ERROR\<close>), a body that does not parse (\<open>API_ERROR\<close>), and a parsed object with
  no or an empty \<open>audioFile\<close> (\<open>TTS_ERROR\<close>).
\<close>

theorem synthesize_failure_carries_fallback:
  "case synthesize_speech e svc request of
     (r, made) \<Rightarrow>
       (\<not> tts_success r \<longrightarrow>
          emergency_fallback r =
            Some (''data:text/plain;base64,'' @ b64encode (utf8_encode (tts_text request)))
          \<and> Option.bind (emergency_fallback r) decode_data_url = Some (tts_text request)
          \<and> audio_url r = None)
       \<and> length made \<le> 1
       \<and> (\<not> tts_is_available svc \<longrightarrow>
            \<not> tts_success r \<and> tts_error_type r = Some CONFIG_ERROR \<and> made = [])
       \<and> (tts_is_available svc \<longrightarrow>
            (case requests_post e (api_url svc) (prepare_murf_payload svc request)
                    (prepare_murf_headers svc) (tts_timeout svc) of
               PostTimeout \<Rightarrow> \<not> tts_success r \<and> tts_error_type r = Some TIMEOUT_ERROR
             | PostRequestException msg \<Rightarrow>
                 \<not> tts_success r \<and> tts_error_type r = Some NETWORK_ERROR
             | PostException msg \<Rightarrow> \<not> tts_success r \<and> tts_error_type r = Some TTS_ERROR
             | PostResponse h \<Rightarrow>
                 (status_code h \<noteq> 200 \<longrightarrow>
                    \<not> tts_success r \<and> tts_error_type r = Some API_ERROR)
                 \<and> (status_code h = 200 \<and> body_json h = None \<longrightarrow>
                      \<not> tts_success r \<and> tts_error_type r = Some API_ERROR)
                 \<and> (\<forall>kvs. status_code h = 200 \<and> body_json h = Some (JObj kvs)
                        \<and> (case map_of kvs ''audioFile'' of
                              None \<Rightarrow> True | Some v \<Rightarrow> \<not> truthy v)
                      \<longrightarrow> \<not> tts_success r \<and> tts_error_type r = Some TTS_ERROR)))"
proof -
  obtain r made where rm: "synthesize_speech e svc request = (r, made)"
    by (cases "synthesize_speech e svc request")
  let ?fb = "generate_emergency_fallback (tts_text request)"
  have fbv: "?fb = Some (''data:text/plain;base64,'' @ b64encode (utf8_encode (tts_text request)))"
    by (simp add: generate_emergency_fallback_def)
  have dec: "Option.bind ?fb decode_data_url = Some (tts_text request)"
    using decode_fallback[OF fbv] by (simp add: fbv)
  have fail: "\<not> tts_success r \<longrightarrow> emergency_fallback r = ?fb \<and> audio_url r = None"
    using rm process_murf_response_failure[of _ "tts_text request"]
    by (auto simp: synthesize_speech_def tts_failure_def Let_def
        split: if_splits post_outcome.splits sum.splits)
  have len: "length made \<le> 1"
    using rm by (auto simp: synthesize_speech_def Let_def split: if_splits)
  have na: "\<not> tts_is_available svc \<longrightarrow>
            \<not> tts_success r \<and> tts_error_type r = Some CONFIG_ERROR \<and> made = []"
    using rm by (auto simp: synthesize_speech_def tts_failure_def)
  have av: "tts_is_available svc \<longrightarrow>
            (case requests_post e (api_url svc) (prepare_murf_payload svc request)
                    (prepare_murf_headers svc) (tts_timeout svc) of
               PostTimeout \<Rightarrow> \<not> tts_success r \<and> tts_error_type r = Some TIMEOUT_ERROR
             | PostRequestException msg \<Rightarrow>
                 \<not> tts_success r \<and> tts_error_type r = Some NETWORK_ERROR
             | PostException msg \<Rightarrow> \<not> tts_success r \<and> tts_error_type r = Some TTS_ERROR
             | PostResponse h \<Rightarrow>
                 (status_code h \<noteq> 200 \<longrightarrow>
                    \<not> tts_success r \<and> tts_error_type r = Some API_ERROR)
                 \<and> (status_code h = 200 \<and> body_json h = None \<longrightarrow>
                      \<not> tts_success r \<and> tts_error_type r = Some API_ERROR)
                 \<and> (\<forall>kvs. status_code h = 200 \<and> body_json h = Some (JObj kvs)
                        \<and> (case map_of kvs ''audioFile'' of
                              None \<Rightarrow> True | Some v \<Rightarrow> \<not> truthy v)
                      \<longrightarrow> \<not> tts_success r \<and> tts_error_type r = Some TTS_ERROR))"
  proof
    assume a: "tts_is_available svc"
    show "case requests_post e (api_url svc) (prepare_murf_payload svc request)
                    (prepare_murf_headers svc) (tts_timeout svc) of
               PostTimeout \<Rightarrow> \<not> tts_success r \<and> tts_error_type r = Some TIMEOUT_ERROR
             | PostRequestException msg \<Rightarrow>
                 \<not> tts_success r \<and> tts_error_type r = Some NETWORK_ERROR
             | PostException msg \<Rightarrow> \<not> tts_success r \<and> tts_error_type r = Some TTS_ERROR
             | PostResponse h \<Rightarrow>
                 (status_code h \<noteq> 200 \<longrightarrow>
                    \<not> tts_success r \<and> tts_error_type r = Some API_ERROR)
                 \<and> (status_code h = 200 \<and> body_json h = None \<longrightarrow>
                      \<not> tts_success r \<and> tts_error_type r = Some API_ERROR)
                 \<and> (\<forall>kvs. status_code h = 200 \<and> body_json h = Some (JObj kvs)
                        \<and> (case map_of kvs ''audioFile'' of
                              None \<Rightarrow> True | Some v \<Rightarrow> \<not> truthy v)
                      \<longrightarrow> \<not> tts_success r \<and> tts_error_type r = Some TTS_ERROR)"
    proof (cases "requests_post e (api_url svc) (prepare_murf_payload svc request)
                    (prepare_murf_headers svc) (tts_timeout svc)")
      case (PostResponse h)
      show ?thesis
      proof (cases "process_murf_response h (tts_text request)")
        case (Inl err)
        from process_murf_response_raises[OF Inl] rm a PostResponse Inl show ?thesis
          by (auto simp: synthesize_speech_def Let_def tts_failure_def)
      next
        case (Inr r')
        with rm a PostResponse have "r' = r"
          by (simp add: synthesize_speech_def Let_def)
        with process_murf_response_modes[OF Inr] PostResponse show ?thesis by simp
      qed
    qed (use rm a in \<open>auto simp: synthesize_speech_def Let_def tts_failure_def\<close>)
  qed
  show ?thesis
    unfolding rm using fail len na av fbv dec by simp
qed

theorem synthesize_failure_carries_fallback_witness:
  "tts_is_available healthy_tts
   \<and> \<not> tts_success (fst (synthesize_speech env_timeout healthy_tts hi_request))
   \<and> emergency_fallback (fst (synthesize_speech env_timeout healthy_tts hi_request))
        = Some ''data:text/plain;base64,SGk=''
   \<and> decode_data_url ''data:text/plain;base64,SGk='' = Some ''Hi''
   \<and> \<not> tts_is_available (healthy_tts\<lparr>tts_api_key := None\<rparr>)
   \<and> snd (synthesize_speech env_timeout (healthy_tts\<lparr>tts_api_key := None\<rparr>) hi_request) = []
   \<and> emergency_fallback (fst (synthesize_speech env_timeout (healthy_tts\<lparr>tts_api_key := None\<rparr>) hi_request))
        = Some ''data:text/plain;base64,SGk=''"
proof -
  have a: "tts_is_available healthy_tts" "\<not> tts_is_available (healthy_tts\<lparr>tts_api_key := None\<rparr>)"
    by (simp_all add: tts_is_available_def healthy_tts_def)
  have p: "requests_post env_timeout (api_url healthy_tts) (prepare_murf_payload healthy_tts hi_request)
                    (prepare_murf_headers healthy_tts) (tts_timeout healthy_tts) = PostTimeout"
    by (simp add: env_timeout_def)
  have t: "tts_text hi_request = ''Hi''" by (simp add: hi_request_def)
  have enc: "b64encode (utf8_encode ''Hi'') = ''SGk=''"
    by (simp add: utf8_encode_def b64_char_def b64_alphabet_def)
  obtain r made where rm: "synthesize_speech env_timeout healthy_tts hi_request = (r, made)"
    by (cases "synthesize_speech env_timeout healthy_tts hi_request")
  obtain r2 made2 where rm2: "synthesize_speech env_timeout (healthy_tts\<lparr>tts_api_key := None\<rparr>) hi_request = (r2, made2)"
    by (cases "synthesize_speech env_timeout (healthy_tts\<lparr>tts_api_key := None\<rparr>) hi_request")
  from synthesize_failure_carries_fallback[where e=env_timeout and svc=healthy_tts and request=hi_request] a(1) p
  have f0: "\<not> tts_success r" unfolding rm by simp
  note T = synthesize_failure_carries_fallback[where e=env_timeout and svc=healthy_tts and request=hi_request,
      unfolded rm prod.case, THEN conjunct1, rule_format, OF f0]
  have f1: "emergency_fallback r = Some ''data:text/plain;base64,SGk=''"
    using T[THEN conjunct1] by (simp add: t enc)
  have f1b: "Option.bind (emergency_fallback r) decode_data_url = Some ''Hi''"
    using T[THEN conjunct2, THEN conjunct1] by (simp only: t)
  from synthesize_failure_carries_fallback[where e=env_timeout and svc="healthy_tts\<lparr>tts_api_key := None\<rparr>" and request=hi_request] a(2)
  have f2: "made2 = []" "emergency_fallback r2 = Some ''data:text/plain;base64,SGk=''"
    unfolding rm2 by (simp_all add: t enc)
  from f1b have d: "decode_data_url ''data:text/plain;base64,SGk='' = Some ''Hi''"
    unfolding f1 by simp
  show ?thesis using a f0 f1 f2 d by (simp add: rm rm2)
qed

section \<open>Facts about the voice pipeline\<close>

subsection \<open>A failed transcription ends the pipeline\<close>

lemma strip_Nil [simp]: "strip [] = []"
  by (simp add: strip_def)

lemma transcribe_audio_calls:
  "list_all is_transcription_call (snd (transcribe_audio e svc audio_file))"
  by (auto simp: transcribe_audio_def perform_transcription_def split: sum.splits option.splits)

lemma transcribe_audio_silence:
  assumes "stt_is_available svc" "save_temp_file e audio_file = Inr path"
    and "stt_client svc = Some c" "c path = Transcript t" "\<not> status_is_error t"
    and "case transcript_text t of None \<Rightarrow> True | Some x \<Rightarrow> strip x = []"
  shows "fst (transcribe_audio e svc audio_file) = stt_failure ''No speech detected in audio'' STT_ERROR"
  using assms
  by (auto simp: transcribe_audio_def perform_transcription_def split: option.splits)

text \<open>
  C4: when \<open>transcribe_audio\<close> reports a failure, \<open>_process_voice_pipeline\<close> returns a
  failure response that carries the transcriber's error message and error type and the
  session id, and no assistant text or audio; the chat manager is exactly as before
  the call, so no session was touched and every message count is unchanged; and the
  only remote calls made are those of the transcription itself: no generation call
  and no synthesis call.  An available transcriber that returns no text, the empty
  text or only white space reports the failure \<open>STT_ERROR\<close>, "No speech detected in
  audio".
\<close>

theorem transcription_failure_aborts:
  "case transcribe_audio e (stt_service svc) audio_file of
     (stt_response, made) \<Rightarrow>
       (\<not> stt_success stt_response \<longrightarrow>
          (case process_voice_pipeline e svc audio_file sid st of
             (r, st') \<Rightarrow>
               \<not> vq_success r
               \<and> vq_error r = stt_error stt_response
               \<and> vq_error_type r = stt_error_type stt_response
               \<and> vq_session_id r = Some sid
               \<and> vq_llm_response r = None \<and> vq_audio_url r = None
               \<and> chat_manager st' = chat_manager st
               \<and> calls st' = calls st @ made
               \<and> list_all (\<lambda>c. \<not> is_generation_call c \<and> \<not> is_synthesis_call c) made))
       \<and> (\<forall>c path t.
             stt_is_available (stt_service svc) \<and> save_temp_file e audio_file = Inr path
             \<and> stt_client (stt_service svc) = Some c \<and> c path = Transcript t
             \<and> \<not> status_is_error t
             \<and> (case transcript_text t of None \<Rightarrow> True | Some x \<Rightarrow> strip x = [])
           \<longrightarrow> \<not> stt_success stt_response
               \<and> stt_error_type stt_response = Some STT_ERROR
               \<and> stt_error stt_response = Some ''No speech detected in audio'')"
proof -
  obtain stt_response made where tm: "transcribe_audio e (stt_service svc) audio_file = (stt_response, made)"
    by (cases "transcribe_audio e (stt_service svc) audio_file")
  have only: "list_all (\<lambda>c. \<not> is_generation_call c \<and> \<not> is_synthesis_call c) made"
  proof -
    have "list_all is_transcription_call made"
      using transcribe_audio_calls[of e "stt_service svc" audio_file] by (simp add: tm)
    moreover have "is_transcription_call c \<longrightarrow> \<not> is_generation_call c \<and> \<not> is_synthesis_call c" for c
      by (cases c) simp_all
    ultimately show ?thesis by (auto simp: list_all_iff)
  qed
  have abort: "\<not> stt_success stt_response \<longrightarrow>
          (case process_voice_pipeline e svc audio_file sid st of
             (r, st') \<Rightarrow>
               \<not> vq_success r
               \<and> vq_error r = stt_error stt_response
               \<and> vq_error_type r = stt_error_type stt_response
               \<and> vq_session_id r = Some sid
               \<and> vq_llm_response r = None \<and> vq_audio_url r = None
               \<and> chat_manager st' = chat_manager st
               \<and> calls st' = calls st @ made
               \<and> list_all (\<lambda>c. \<not> is_generation_call c \<and> \<not> is_synthesis_call c) made)"
    using only by (simp add: process_voice_pipeline_def tm VoiceQueryResponse_failure_def)
  have silence: "\<forall>c path t.
             stt_is_available (stt_service svc) \<and> save_temp_file e audio_file = Inr path
             \<and> stt_client (stt_service svc) = Some c \<and> c path = Transcript t
             \<and> \<not> status_is_error t
             \<and> (case transcript_text t of None \<Rightarrow> True | Some x \<Rightarrow> strip x = [])
           \<longrightarrow> \<not> stt_success stt_response
               \<and> stt_error_type stt_response = Some STT_ERROR
               \<and> stt_error stt_response = Some ''No speech detected in audio''"
  proof (intro allI impI)
    fix c path t
    assume h: "stt_is_available (stt_service svc) \<and> save_temp_file e audio_file = Inr path
             \<and> stt_client (stt_service svc) = Some c \<and> c path = Transcript t
             \<and> \<not> status_is_error t
             \<and> (case transcript_text t of None \<Rightarrow> True | Some x \<Rightarrow> strip x = [])"
    then have "fst (transcribe_audio e (stt_service svc) audio_file) = stt_failure ''No speech detected in audio'' STT_ERROR"
      using transcribe_audio_silence[of "stt_service svc" e audio_file path c t] by blast
    then show "\<not> stt_success stt_response
               \<and> stt_error_type stt_response = Some STT_ERROR
               \<and> stt_error stt_response = Some ''No speech detected in audio''"
      by (simp add: tm stt_failure_def)
  qed
  show ?thesis unfolding tm using abort silence by simp
qed

theorem transcription_failure_aborts_witness:
  "stt_is_available (stt_service silent)
   \<and> \<not> stt_success (fst (transcribe_audio env0 (stt_service silent) audio0))
   \<and> \<not> vq_success (fst (process_voice_pipeline env0 silent audio0 ''u'' demo_state))
   \<and> vq_error_type (fst (process_voice_pipeline env0 silent audio0 ''u'' demo_state)) = Some STT_ERROR
   \<and> vq_error (fst (process_voice_pipeline env0 silent audio0 ''u'' demo_state))
        = Some ''No speech detected in audio''
   \<and> chat_manager (snd (process_voice_pipeline env0 silent audio0 ''u'' demo_state)) = demo_manager
   \<and> calls (snd (process_voice_pipeline env0 silent audio0 ''u'' demo_state))
        = [AssemblyAITranscribe ''/tmp/tmp0.webm'']
   \<and> length (get_chat_history demo_manager ''u'') = 2"
proof -
  let ?c = "\<lambda>path :: string. Transcript
        \<lparr>status_is_error = False, transcript_error = [],
         transcript_text = Some ''  '', transcript_confidence = None\<rparr>"
  have av: "stt_is_available (stt_service silent)"
    by (simp add: silent_def silent_stt_def healthy_stt_def stt_is_available_def)
  have sv: "save_temp_file env0 audio0 = Inr ''/tmp/tmp0.webm''" by (simp add: env0_def)
  have cl: "stt_client (stt_service silent) = Some ?c"
    by (simp add: silent_def silent_stt_def)
  have sp: "strip ''  '' = []" by (simp add: strip_def isspace_def)
  obtain stt_response made where tm: "transcribe_audio env0 (stt_service silent) audio0 = (stt_response, made)"
    by (cases "transcribe_audio env0 (stt_service silent) audio0")
  have md: "made = [AssemblyAITranscribe ''/tmp/tmp0.webm'']"
    using tm av sv cl by (simp add: transcribe_audio_def perform_transcription_def)
  obtain r st' where pr: "process_voice_pipeline env0 silent audio0 ''u'' demo_state = (r, st')"
    by (cases "process_voice_pipeline env0 silent audio0 ''u'' demo_state")
  note T = transcription_failure_aborts[where e=env0 and svc=silent and audio_file=audio0
      and sid="''u''" and st=demo_state, unfolded tm pr prod.case]
  from T[THEN conjunct2, rule_format, where c="?c" and path="''/tmp/tmp0.webm''"
      and t="\<lparr>status_is_error = False, transcript_error = [],
         transcript_text = Some ''  '', transcript_confidence = None\<rparr>"] av sv cl sp
  have f: "\<not> stt_success stt_response" "stt_error_type stt_response = Some STT_ERROR"
      "stt_error stt_response = Some ''No speech detected in audio''"
    by simp_all
  from T[THEN conjunct1, rule_format, OF f(1)] f md
  have g: "\<not> vq_success r" "vq_error_type r = Some STT_ERROR"
      "vq_error r = Some ''No speech detected in audio''"
      "chat_manager st' = demo_manager" "calls st' = [AssemblyAITranscribe ''/tmp/tmp0.webm'']"
    by (simp_all add: demo_state_def)
  have h: "length (get_chat_history demo_manager ''u'') = 2"
    by (simp add: demo_manager_eval get_chat_history_def)
  show ?thesis using av f g h by (simp add: tm pr)
qed

subsection \<open>A failed generation falls back\<close>

text \<open>
  After a successful transcription, a failed generation does not end the pipeline
  (\<open>pipeline_generation_failure\<close>): the fallback utterance becomes the assistant text,
  the store's append is applied to it, synthesis runs on it, and the response reports
  success with \<open>fallback_used\<close>.  When the session id is known to the store, the
  session's history gains the user message and the fallback as the assistant message
  (\<open>pipeline_generation_failure_known_session\<close>).
\<close>

lemma strip_joke: "strip '' Tell me a joke '' = ''Tell me a joke''"
  by (simp add: strip_def isspace_def)

lemma stt_joke:
  "transcribe_audio env0 healthy_stt audio0 =
     (\<lparr>stt_success = True, transcription = Some ''Tell me a joke'', confidence = Some (9 / 10),
       language = Some ''en'', stt_error = None, stt_error_type = None\<rparr>,
      [AssemblyAITranscribe ''/tmp/tmp0.webm''])"
  by (simp add: transcribe_audio_def perform_transcription_def healthy_stt_def stt_is_available_def
      env0_def TranscriptionResponse_new_def strip_joke)

lemma req_joke:
  "LLMRequest_new ''Tell me a joke'' (Some sid) =
     Inr \<lparr>llm_text = ''Tell me a joke'', llm_session_id = Some sid,
          llm_model = Some ''gemini-1.5-flash'', include_history = Some True\<rparr>"
  by (simp add: LLMRequest_new_def strip_def isspace_def)

lemma gen_fails:
  "llm_text req = ''Tell me a joke'' \<Longrightarrow>
   generate_response failing_llm req h =
     (LLMResponse_default
        \<lparr>llm_success := False,
         llm_error := Some ''LLM generation failed: 503 unavailable'',
         llm_error_type := Some LLM_ERROR,
         fallback_response := Some (generate_contextual_fallback ''Tell me a joke''),
         query := Some ''Tell me a joke'',
         resp_session_id := llm_session_id req\<rparr>,
      [GeminiGenerate (prepare_context req h)])"
  by (simp add: generate_response_def failing_llm_def healthy_llm_def llm_is_available_def
      generate_llm_response_def Let_def)

lemma strip_id:
  assumes "xs \<noteq> []" "\<not> isspace (hd xs)" "\<not> isspace (last xs)"
  shows "strip xs = xs"
proof -
  have a: "dropWhile isspace xs = xs" using assms(2) by (simp add: dropWhile_eq_self_iff)
  have "rev xs \<noteq> []" "hd (rev xs) = last xs" using assms(1) by (simp_all add: hd_rev)
  then have b: "dropWhile isspace (rev xs) = rev xs" using assms(3) by (simp add: dropWhile_eq_self_iff)
  show ?thesis by (simp add: strip_def a b)
qed

lemma fallback_shape:
  "generate_contextual_fallback t \<noteq> []
   \<and> \<not> isspace (hd (generate_contextual_fallback t))
   \<and> \<not> isspace (last (generate_contextual_fallback t))
   \<and> length (generate_contextual_fallback t) \<le> 5000"
proof -
  have l: "last (generate_contextual_fallback t) \<in> {CHR ''.'', CHR ''?'', CHR ''!''}"
    by (simp add: generate_contextual_fallback_def Let_def)
  have e: "\<not> isspace (last (generate_contextual_fallback t))"
    using l by (auto simp: isspace_def)
  have n: "generate_contextual_fallback t \<noteq> []"
    by (simp add: generate_contextual_fallback_def Let_def)
  have h: "\<not> isspace (hd (generate_contextual_fallback t))"
    by (simp add: generate_contextual_fallback_def Let_def isspace_def)
  have s: "length (generate_contextual_fallback t) \<le> 5000"
    by (simp add: generate_contextual_fallback_def Let_def)
  show ?thesis using n h e s by blast
qed

lemma tts_request_fallback:
  "TTSRequest_of_text (generate_contextual_fallback t) =
     Inr \<lparr>tts_text = generate_contextual_fallback t, voice_id = Some ''en-US-AriaNeural'',
          speed = Some 95, pitch = Some 45\<rparr>"
proof -
  have s: "strip (generate_contextual_fallback t) = generate_contextual_fallback t"
    using fallback_shape[of t] by (intro strip_id) simp_all
  have l: "\<not> length (generate_contextual_fallback t) < 1" "\<not> length (generate_contextual_fallback t) > 5000"
    using fallback_shape[of t] by (auto simp: Suc_le_eq)
  show ?thesis
    using fallback_shape[of t]
    by (simp only: TTSRequest_of_text_def TTSRequest_new_def s l) simp
qed

lemma generate_response_failure_fallback:
  assumes "generate_response svc req h = (llm_response, made)" "\<not> llm_success llm_response"
  shows "fallback_response llm_response = Some (generate_contextual_fallback (llm_text req))"
  using assms
  by (auto simp: generate_response_def Let_def LLMResponse_default_def split: if_splits sum.splits)

lemma or_str_fallback:
  "or_str (Some (generate_contextual_fallback t)) d = generate_contextual_fallback t"
  using fallback_shape[of t] by (simp add: or_str_def)

lemma pipeline_generation_failure:
  assumes tm: "transcribe_audio e (stt_service svc) audio_file = (stt_response, c1)"
    and ok: "stt_success stt_response" "transcription stt_response = Some t"
    and req: "LLMRequest_new t (Some sid) = Inr req"
    and um: "add_user_message e (chat_manager st) sid t = Inr (ok2, m2)"
    and gen: "generate_response (llm_service svc) req (Some (get_recent_messages m2 sid 10))
                = (llm_response, c3)"
    and fail: "\<not> llm_success llm_response"
    and am: "add_assistant_message e m2 sid (generate_contextual_fallback (llm_text req))
                = Inr (ok4, m4)"
    and sy: "synthesize_speech e (tts_service svc)
               \<lparr>tts_text = generate_contextual_fallback (llm_text req),
                voice_id = Some ''en-US-AriaNeural'', speed = Some 95, pitch = Some 45\<rparr>
             = (tts_response, c5)"
  shows "process_voice_pipeline e svc audio_file sid st =
     (\<lparr>vq_success = True,
       vq_transcription = Some t,
       vq_llm_response = Some (generate_contextual_fallback (llm_text req)),
       vq_audio_url = (if tts_success tts_response then audio_url tts_response else None),
       vq_confidence = confidence stt_response,
       vq_chat_history = Some (get_chat_history m4 sid),
       vq_session_id = Some sid,
       vq_message_count = Some (int (length (get_chat_history m4 sid))),
       vq_error = None,
       vq_error_type = None,
       fallback_used = Some True\<rparr>,
      \<lparr>chat_manager = m4, calls = calls st @ c1 @ c3 @ c5\<rparr>)"
proof -
  have fb: "fallback_response llm_response = Some (generate_contextual_fallback (llm_text req))"
    using generate_response_failure_fallback[OF gen fail] .
  show ?thesis
    unfolding process_voice_pipeline_def
    by (simp add: tm ok req um gen fail am sy fb or_str_fallback tts_request_fallback Let_def)
qed

lemma synthesize_posts_text:
  assumes "synthesize_speech e svc request = (tts_response, c5)" "tts_is_available svc"
  shows "c5 = [MurfPost (api_url svc) (prepare_murf_payload svc request)]
     \<and> payload_text (prepare_murf_payload svc request) = tts_text request"
  using assms by (auto simp: synthesize_speech_def Let_def prepare_murf_payload_def)

lemma pipeline_generation_failure_known_session:
  assumes tm: "transcribe_audio e (stt_service svc) audio_file = (stt_response, c1)"
    and ok: "stt_success stt_response" "transcription stt_response = Some t"
    and req: "LLMRequest_new t (Some sid) = Inr req"
    and known: "get_session (chat_manager st) sid = Some s"
    and fail: "\<forall>h. \<not> llm_success (fst (generate_response (llm_service svc) req h))"
  shows "case process_voice_pipeline e svc audio_file sid st of
           (r, st') \<Rightarrow>
             vq_success r \<and> fallback_used r = Some True
             \<and> vq_llm_response r = Some (generate_contextual_fallback (llm_text req))
             \<and> map (\<lambda>m. (role m, content m)) (get_chat_history (chat_manager st') sid)
                 = map (\<lambda>m. (role m, content m)) (messages s)
                   @ [(USER, t), (ASSISTANT, generate_contextual_fallback (llm_text req))]
             \<and> vq_chat_history r = Some (get_chat_history (chat_manager st') sid)
             \<and> vq_message_count r = Some (int (length (messages s)) + 2)
             \<and> (tts_is_available (tts_service svc) \<longrightarrow>
                  (\<exists>url p. last (calls st') = MurfPost url p
                     \<and> payload_text p = generate_contextual_fallback (llm_text req)))"
proof -
  let ?fb = "generate_contextual_fallback (llm_text req)"
  let ?m = "chat_manager st"
  have k: "map_of (sessions ?m) sid = Some s" using known by (simp add: get_session_def)
  obtain m2 where um: "add_user_message e ?m sid t = Inr (True, m2)"
    and h2: "map_of (sessions m2) sid = Some (s\<lparr>messages := messages s @ [\<lparr>role = USER, content = t, timestamp = now e (clock_reads ?m)\<rparr>],
               message_count := 1 + int (length (messages s)),
               last_activity := now e (Suc (clock_reads ?m))\<rparr>)"
    by (simp add: add_user_message_def add_message_known[OF k] update_conv')
  obtain m4 where am: "add_assistant_message e m2 sid ?fb = Inr (True, m4)"
    and h4: "get_chat_history m4 sid = messages s @ [\<lparr>role = USER, content = t, timestamp = now e (clock_reads ?m)\<rparr>,
        \<lparr>role = ASSISTANT, content = ?fb, timestamp = now e (clock_reads m2)\<rparr>]"
    by (simp add: add_assistant_message_def add_message_known[OF h2] update_conv' get_chat_history_def)
  obtain llm_response c3 where gen: "generate_response (llm_service svc) req (Some (get_recent_messages m2 sid 10))
                = (llm_response, c3)"
    by (cases "generate_response (llm_service svc) req (Some (get_recent_messages m2 sid 10))")
  have f: "\<not> llm_success llm_response" using fail[rule_format, of "Some (get_recent_messages m2 sid 10)"] gen by simp
  obtain tts_response c5 where sy: "synthesize_speech e (tts_service svc)
               \<lparr>tts_text = ?fb, voice_id = Some ''en-US-AriaNeural'', speed = Some 95, pitch = Some 45\<rparr>
             = (tts_response, c5)"
    by (cases "synthesize_speech e (tts_service svc)
               \<lparr>tts_text = ?fb, voice_id = Some ''en-US-AriaNeural'', speed = Some 95, pitch = Some 45\<rparr>")
  note P = pipeline_generation_failure[OF tm ok req um gen f am sy]
  have post: "tts_is_available (tts_service svc) \<longrightarrow>
        (\<exists>url p. last (calls st @ c1 @ c3 @ c5) = MurfPost url p \<and> payload_text p = ?fb)"
    using synthesize_posts_text[OF sy] by auto
  show ?thesis
    unfolding P using h4 post by simp
qed

text \<open>
  C3, at an unknown session id: with transcription and synthesis healthy and a
  generation client that raises, the pipeline on the empty store with session id
  \<open>s1\<close> reports success with \<open>fallback_used\<close>, the contextual fallback as assistant
  text, and posts that text for synthesis.  But the assistant message is not in the
  session \<open>s1\<close>: the store holds the user message under \<open>u\<close> and the fallback under
  \<open>ux\<close>, the history of \<open>s1\<close> is empty, and the response carries an empty history
  and the message count 0.
\<close>

theorem generation_failure_unknown_session:
  "(case process_voice_pipeline env0 degraded audio0 ''s1'' init_state of
      (r, st') \<Rightarrow>
        vq_success r \<and> fallback_used r = Some True
        \<and> vq_llm_response r = Some (generate_contextual_fallback ''Tell me a joke'')
        \<and> (case last (calls st') of
              MurfPost url p \<Rightarrow> payload_text p = generate_contextual_fallback ''Tell me a joke''
            | _ \<Rightarrow> False)
        \<and> get_chat_history (chat_manager st') ''s1'' = []
        \<and> vq_chat_history r = Some [] \<and> vq_message_count r = Some 0
        \<and> map fst (sessions (chat_manager st')) = [''u'', ''ux'']
        \<and> map content (get_chat_history (chat_manager st') ''u'') = [''Tell me a joke'']
        \<and> map content (get_chat_history (chat_manager st') ''ux'')
            = [generate_contextual_fallback ''Tell me a joke''])"
proof -
  let ?fb = "generate_contextual_fallback ''Tell me a joke''"
  let ?req = "\<lparr>llm_text = ''Tell me a joke'', llm_session_id = Some ''s1'',
          llm_model = Some ''gemini-1.5-flash'', include_history = Some True\<rparr>"
  have tm: "transcribe_audio env0 (stt_service degraded) audio0 =
     (\<lparr>stt_success = True, transcription = Some ''Tell me a joke'', confidence = Some (9 / 10),
       language = Some ''en'', stt_error = None, stt_error_type = None\<rparr>,
      [AssemblyAITranscribe ''/tmp/tmp0.webm''])"
    by (simp add: degraded_def healthy_def stt_joke)
  obtain m2 where um: "add_user_message env0 (chat_manager init_state) ''s1'' ''Tell me a joke'' = Inr (True, m2)"
    and m2: "m2 = \<lparr>sessions = [(''u'', \<lparr>session_id = ''u'', message_count = 1, created_at = 0, last_activity = 2,
                  messages = [\<lparr>role = USER, content = ''Tell me a joke'', timestamp = 1\<rparr>]\<rparr>)],
                 uuid_draws = 1, clock_reads = 3\<rparr>"
    by (simp add: add_user_message_def add_message_def create_session_def init_state_def
        init_manager_def env0_def Let_def numeral_2_eq_2 numeral_3_eq_3)
  obtain m4 where am: "add_assistant_message env0 m2 ''s1'' ?fb = Inr (True, m4)"
    and m4: "m4 = \<lparr>sessions = [(''u'', \<lparr>session_id = ''u'', message_count = 1, created_at = 0, last_activity = 2,
                  messages = [\<lparr>role = USER, content = ''Tell me a joke'', timestamp = 1\<rparr>]\<rparr>),
                  (''ux'', \<lparr>session_id = ''ux'', message_count = 1, created_at = 3, last_activity = 5,
                  messages = [\<lparr>role = ASSISTANT, content = ?fb, timestamp = 4\<rparr>]\<rparr>)],
                 uuid_draws = 2, clock_reads = 6\<rparr>"
    unfolding m2
    by (simp add: add_assistant_message_def add_message_def create_session_def
        env0_def Let_def eval_nat_numeral)
  have gen: "generate_response (llm_service degraded) ?req (Some (get_recent_messages m2 ''s1'' 10)) =
     (LLMResponse_default
        \<lparr>llm_success := False,
         llm_error := Some ''LLM generation failed: 503 unavailable'',
         llm_error_type := Some LLM_ERROR,
         fallback_response := Some ?fb,
         query := Some ''Tell me a joke'',
         resp_session_id := llm_session_id ?req\<rparr>,
      [GeminiGenerate (prepare_context ?req (Some (get_recent_messages m2 ''s1'' 10)))])"
    by (simp add: degraded_def healthy_def gen_fails)
  have av: "tts_is_available (tts_service degraded)"
    by (simp add: degraded_def healthy_def healthy_tts_def tts_is_available_def)
  obtain tts_response c5 where sy: "synthesize_speech env0 (tts_service degraded)
               \<lparr>tts_text = generate_contextual_fallback (llm_text ?req),
                voice_id = Some ''en-US-AriaNeural'', speed = Some 95, pitch = Some 45\<rparr>
             = (tts_response, c5)"
    by (cases "synthesize_speech env0 (tts_service degraded)
               \<lparr>tts_text = generate_contextual_fallback (llm_text ?req),
                voice_id = Some ''en-US-AriaNeural'', speed = Some 95, pitch = Some 45\<rparr>")
  have c5: "c5 = [MurfPost (api_url (tts_service degraded)) (prepare_murf_payload (tts_service degraded)
               \<lparr>tts_text = ?fb, voice_id = Some ''en-US-AriaNeural'', speed = Some 95, pitch = Some 45\<rparr>)]"
    using synthesize_posts_text[OF sy av] by simp
  have P: "process_voice_pipeline env0 degraded audio0 ''s1'' init_state =
     (\<lparr>vq_success = True,
       vq_transcription = Some ''Tell me a joke'',
       vq_llm_response = Some ?fb,
       vq_audio_url = (if tts_success tts_response then audio_url tts_response else None),
       vq_confidence = Some (9 / 10),
       vq_chat_history = Some (get_chat_history m4 ''s1''),
       vq_session_id = Some ''s1'',
       vq_message_count = Some (int (length (get_chat_history m4 ''s1''))),
       vq_error = None,
       vq_error_type = None,
       fallback_used = Some True\<rparr>,
      \<lparr>chat_manager = m4, calls = calls init_state @ [AssemblyAITranscribe ''/tmp/tmp0.webm'']
         @ [GeminiGenerate (prepare_context ?req (Some (get_recent_messages m2 ''s1'' 10)))] @ c5\<rparr>)"
    using pipeline_generation_failure[OF tm _ _ req_joke um gen _ _ sy, of True m4] am
    by (simp add: LLMResponse_default_def)
  have hist: "get_chat_history m4 ''s1'' = []" "map fst (sessions m4) = [''u'', ''ux'']"
    "map content (get_chat_history m4 ''u'') = [''Tell me a joke'']"
    "map content (get_chat_history m4 ''ux'') = [?fb]"
    unfolding m4 by (simp_all add: get_chat_history_def)
  have pl: "payload_text (prepare_murf_payload svc0 \<lparr>tts_text = ?fb, voice_id = Some ''en-US-AriaNeural'', speed = Some 95, pitch = Some 45\<rparr>) = ?fb"
    for svc0 by (simp add: prepare_murf_payload_def)
  show ?thesis
    unfolding P prod.case c5 using hist pl by simp
qed

theorem generation_failure_unknown_session_witness:
  "vq_success (fst (process_voice_pipeline env0 degraded audio0 ''s1'' init_state))
   \<and> fallback_used (fst (process_voice_pipeline env0 degraded audio0 ''s1'' init_state)) = Some True
   \<and> get_chat_history
        (chat_manager (snd (process_voice_pipeline env0 degraded audio0 ''s1'' init_state))) ''s1'' = []
   \<and> vq_message_count (fst (process_voice_pipeline env0 degraded audio0 ''s1'' init_state)) = Some 0"
  using generation_failure_unknown_session by (simp split: prod.splits)

section \<open>Facts about the text query\<close>

lemma hello_eval:
  "llm_query env0 healthy hello_request init_state =
     (JsonLLM
        \<lparr>llm_success = True, response = Some ''Hi there!'', query = Some ''Hello'',
         model = Some ''gemini-1.5-flash'', resp_session_id = None, llm_error = None,
         llm_error_type = None, fallback_response = None, day = 14,
         challenge = ''30 Days of Voice Agents''\<rparr> 200,
      \<lparr>chat_manager = init_manager,
       calls = [GeminiGenerate (prepare_context
          \<lparr>llm_text = ''Hello'', llm_session_id = None, llm_model = Some ''gemini-1.5-flash'',
           include_history = Some True\<rparr> None)]\<rparr>)"
  by (simp add: llm_query_def hello_request_def handle_text_query_def request_text_def
      validate_text_input_def LLMRequest_new_def strip_def isspace_def generate_response_def
      healthy_def healthy_llm_def llm_is_available_def generate_llm_response_def
      LLMResponse_default_def init_state_def Let_def show_int_def)

text \<open>
  C1 as stated fails: on the text request "Hello" with every capability healthy, the
  route answers with the generation result and status 200, but nothing was appended
  to any session (the store is still empty, so no session has two messages) and no
  synthesis call was made.
\<close>

theorem text_query_no_session_counterexample:
  "fst (llm_query env0 healthy hello_request init_state) =
     JsonLLM
        \<lparr>llm_success = True, response = Some ''Hi there!'', query = Some ''Hello'',
         model = Some ''gemini-1.5-flash'', resp_session_id = None, llm_error = None,
         llm_error_type = None, fallback_response = None, day = 14,
         challenge = ''30 Days of Voice Agents''\<rparr> 200
   \<and> sessions (chat_manager (snd (llm_query env0 healthy hello_request init_state))) = []
   \<and> total_messages (get_session_stats (chat_manager (snd (llm_query env0 healthy hello_request init_state)))) \<noteq> 2
   \<and> \<not> list_ex is_synthesis_call (calls (snd (llm_query env0 healthy hello_request init_state)))"
  by (simp add: hello_eval init_manager_def get_session_stats_def)

lemma generate_response_calls:
  "list_all is_generation_call (snd (generate_response svc req h))
   \<and> length (snd (generate_response svc req h)) \<le> 1"
  by (auto simp: generate_response_def Let_def split: sum.splits option.splits)

lemma generate_response_healthy:
  assumes "llm_is_available svc" "client svc = Some c" "c (prepare_context req h) = GenText g"
    and "strip g \<noteq> []"
  shows "llm_success (fst (generate_response svc req h))
     \<and> response (fst (generate_response svc req h)) = Some (strip g)
     \<and> fallback_response (fst (generate_response svc req h)) = None"
proof -
  from assms(4) have "g \<noteq> []" by (auto simp: strip_def)
  with assms show ?thesis
    by (simp add: generate_response_def generate_llm_response_def Let_def LLMResponse_default_def)
qed

text \<open>
  C1, amended: a request with no audio file whose text passes \<open>validate_text_input\<close>
  and is at most 10000 characters long runs the generation stage only.  The handler
  builds the request from the stripped text with no session id, calls
  \<open>generate_response\<close> without history, and answers with its result and status 200.  The
  chat manager is unchanged, and the only remote calls are generation calls, at most
  one.  When the generation service is available and its client returns a text that
  is not only white space, the result reports success and carries the stripped text,
  which is not empty.
\<close>

theorem text_query_generation_only:
  assumes "''audio'' \<notin> set (map fst (files request))"
    and "request_text request = Inr (Some (JStr t))"
    and "validate_text_input t 10000 = None"
    and "length t \<le> 10000"
  shows "\<exists>req. LLMRequest_new t None = Inr req
      \<and> llm_text req = strip t \<and> llm_session_id req = None
      \<and> llm_query e svc request st =
          (JsonLLM (fst (generate_response (llm_service svc) req None)) 200,
           st\<lparr>calls := calls st @ snd (generate_response (llm_service svc) req None)\<rparr>)
      \<and> chat_manager (snd (llm_query e svc request st)) = chat_manager st
      \<and> list_all is_generation_call (snd (generate_response (llm_service svc) req None))
      \<and> length (snd (generate_response (llm_service svc) req None)) \<le> 1
      \<and> (\<forall>c g. llm_is_available (llm_service svc) \<and> client (llm_service svc) = Some c
             \<and> c (prepare_context req None) = GenText g \<and> strip g \<noteq> []
           \<longrightarrow> llm_success (fst (generate_response (llm_service svc) req None))
               \<and> response (fst (generate_response (llm_service svc) req None)) = Some (strip g)
               \<and> strip g \<noteq> [])"
proof -
  from assms(3) have ne: "t \<noteq> []" "strip t \<noteq> []"
    by (auto simp: validate_text_input_def Let_def split: if_splits)
  let ?req = "\<lparr>llm_text = strip t, llm_session_id = None,
                llm_model = Some ''gemini-1.5-flash'', include_history = Some True\<rparr>"
  have rq: "LLMRequest_new t None = Inr ?req"
    using ne assms(4) by (simp add: LLMRequest_new_def Suc_le_eq)
  have h: "handle_text_query svc request =
      Inr (JsonLLM (fst (generate_response (llm_service svc) ?req None)) 200,
           snd (generate_response (llm_service svc) ?req None))"
    using assms(2,3) ne rq by (simp add: handle_text_query_def split_beta)
  have q: "llm_query e svc request st =
          (JsonLLM (fst (generate_response (llm_service svc) ?req None)) 200,
           st\<lparr>calls := calls st @ snd (generate_response (llm_service svc) ?req None)\<rparr>)"
    using assms(1) h by (simp add: llm_query_def)
  have hl: "\<forall>c g. llm_is_available (llm_service svc) \<and> client (llm_service svc) = Some c
             \<and> c (prepare_context ?req None) = GenText g \<and> strip g \<noteq> []
           \<longrightarrow> llm_success (fst (generate_response (llm_service svc) ?req None))
               \<and> response (fst (generate_response (llm_service svc) ?req None)) = Some (strip g)
               \<and> strip g \<noteq> []"
    using generate_response_healthy[of "llm_service svc" _ ?req None] by blast
  show ?thesis
    using rq q hl generate_response_calls[of "llm_service svc" ?req None]
    by (intro exI[of _ ?req]) simp
qed

theorem text_query_generation_only_witness:
  "''audio'' \<notin> set (map fst (files hello_request))
   \<and> request_text hello_request = Inr (Some (JStr ''Hello''))
   \<and> validate_text_input ''Hello'' 10000 = None
   \<and> length ''Hello'' \<le> 10000
   \<and> (\<exists>req. llm_text req = ''Hello''
         \<and> llm_success (fst (generate_response (llm_service healthy) req None))
         \<and> response (fst (generate_response (llm_service healthy) req None)) = Some ''Hi there!''
         \<and> chat_manager (snd (llm_query env0 healthy hello_request init_state)) = init_manager)"
proof -
  have a: "''audio'' \<notin> set (map fst (files hello_request))" by (simp add: hello_request_def)
  have b: "request_text hello_request = Inr (Some (JStr ''Hello''))"
    by (simp add: hello_request_def request_text_def)
  have s: "strip ''Hello'' = ''Hello''" by (simp add: strip_def isspace_def)
  have c: "validate_text_input ''Hello'' 10000 = None"
    by (simp add: validate_text_input_def s Let_def)
  have d: "length ''Hello'' \<le> 10000" by simp
  have g: "strip ''Hi there! '' = ''Hi there!''" by (simp add: strip_def isspace_def)
  from text_query_generation_only[OF a b c d, of env0 healthy init_state]
  obtain req where r: "llm_text req = strip ''Hello''"
    and m: "chat_manager (snd (llm_query env0 healthy hello_request init_state)) = chat_manager init_state"
    and hl: "\<forall>c g. llm_is_available (llm_service healthy) \<and> client (llm_service healthy) = Some c
             \<and> c (prepare_context req None) = GenText g \<and> strip g \<noteq> []
           \<longrightarrow> llm_success (fst (generate_response (llm_service healthy) req None))
               \<and> response (fst (generate_response (llm_service healthy) req None)) = Some (strip g)
               \<and> strip g \<noteq> []"
    by blast
  have av: "llm_is_available (llm_service healthy)"
    "client (llm_service healthy) = Some (\<lambda>context. GenText ''Hi there! '')"
    by (simp_all add: healthy_def healthy_llm_def llm_is_available_def)
  from hl[rule_format, of "\<lambda>context. GenText ''Hi there! ''" "''Hi there! ''"] av g
  have ok: "llm_success (fst (generate_response (llm_service healthy) req None))"
    "response (fst (generate_response (llm_service healthy) req None)) = Some ''Hi there!''"
    by simp_all
  show ?thesis
    using a b c d r ok m by (auto simp: s init_state_def)
qed

end
